theory Spec2Isabelle
  imports Complex_Main "HOL-Library.AList"
begin

section \<open>JavaScript values\<close>

text \<open>
  The handlers of \<^verbatim>\<open>src/server.ts\<close> work on parsed JSON: request bodies, the bodies
  of the completion service's answers, the record the store returns. A JSON value is the
  datatype below; the JavaScript value \<^verbatim>\<open>undefined\<close> is \<open>None\<close> of \<open>json option\<close>.
  A number is kept as a rational: the handlers ask whether it is zero, and for its
  decimal text, which the world of the request gives.
  The fields of an object are an association list whose keys are distinct, as
  \<^verbatim>\<open>JSON.parse\<close> leaves them.
\<close>

datatype json =
    JNull
  | JBool bool
  | JNum rat
  | JString string
  | JArray "json list"
  | JObject "(string \<times> json) list"

text \<open>\<^verbatim>\<open>!v\<close> is \<open>\<not> truthy v\<close>.\<close>

fun truthy :: "json option \<Rightarrow> bool" where
  "truthy None = False"
| "truthy (Some JNull) = False"
| "truthy (Some (JBool b)) = b"
| "truthy (Some (JNum n)) = (n \<noteq> 0)"
| "truthy (Some (JString s)) = (s \<noteq> [])"
| "truthy (Some (JArray xs)) = True"
| "truthy (Some (JObject kvs)) = True"

text \<open>\<^verbatim>\<open>a || b\<close> where \<open>b\<close> is a defined value.\<close>

fun or_else :: "json option \<Rightarrow> json \<Rightarrow> json" where
  "or_else None d = d"
| "or_else (Some v) d = (if truthy (Some v) then v else d)"

text \<open>
  A thrown \<^verbatim>\<open>Error\<close> is its message; a computation that may throw returns
  \<open>string + 'a\<close>, \<open>Inl\<close> the message. The message of the engine's TypeError is V8's.
\<close>

definition cannot_read :: "string \<Rightarrow> string \<Rightarrow> string" where
  "cannot_read what k =
     ''Cannot read properties of '' @ what @ '' (reading '' @ [CHR 0x27] @ k @ [CHR 0x27] @ '')''"

text \<open>
  \<^verbatim>\<open>v.k\<close>, for the property names the handlers read (\<^verbatim>\<open>query\<close>, \<^verbatim>\<open>choices\<close>,
  \<^verbatim>\<open>message\<close>, \<^verbatim>\<open>content\<close>, \<^verbatim>\<open>id\<close>, ...), none of which a string, a number, a
  boolean or an array carries: reading from \<^verbatim>\<open>null\<close> or \<^verbatim>\<open>undefined\<close> throws.
\<close>

fun member :: "json option \<Rightarrow> string \<Rightarrow> string + json option" where
  "member None k = Inl (cannot_read ''undefined'' k)"
| "member (Some JNull) k = Inl (cannot_read ''null'' k)"
| "member (Some (JObject kvs)) k = Inr (map_of kvs k)"
| "member (Some v) k = Inr None"

text \<open>\<^verbatim>\<open>const { k } = req.body\<close>: the same read, with the message of a failed destructuring.\<close>

definition destructure :: "json option \<Rightarrow> string \<Rightarrow> string + json option" where
  "destructure body k =
     (case member body k of
        Inl e \<Rightarrow> Inl (''Cannot destructure property '' @ [CHR 0x27] @ k @ [CHR 0x27] @ '' of '' @
                     [CHR 0x27] @ ''req.body'' @ [CHR 0x27] @ '' as it is '' @
                     (if body = None then ''undefined'' else ''null'') @ ''.'')
      | Inr v \<Rightarrow> Inr v)"

text \<open>\<^verbatim>\<open>v?.k\<close>: \<^verbatim>\<open>undefined\<close> where \<^verbatim>\<open>v.k\<close> would throw.\<close>

fun opt_member :: "json option \<Rightarrow> string \<Rightarrow> json option" where
  "opt_member (Some (JObject kvs)) k = map_of kvs k"
| "opt_member v k = None"

fun isArray :: "json option \<Rightarrow> bool" where
  "isArray (Some (JArray xs)) = True"
| "isArray v = False"

text \<open>\<^verbatim>\<open>a[0]\<close> of an array.\<close>

fun elem0 :: "json option \<Rightarrow> json option" where
  "elem0 (Some (JArray (x # xs))) = Some x"
| "elem0 v = None"

fun is_empty_array :: "json option \<Rightarrow> bool" where
  "is_empty_array (Some (JArray [])) = True"
| "is_empty_array v = False"

text \<open>
  The test every call site makes on a completion body:
  \<^verbatim>\<open>!data.choices || !Array.isArray(data.choices) || data.choices.length === 0\<close>.
\<close>

definition no_choices :: "json option \<Rightarrow> bool" where
  "no_choices c = (if truthy c then (if isArray c then is_empty_array c else True) else True)"

text \<open>\<^verbatim>\<open>data.choices[0]?.message?.content\<close>.\<close>

definition first_content :: "json option \<Rightarrow> json option" where
  "first_content c = opt_member (opt_member (elem0 c) ''message'') ''content''"

section \<open>Strings\<close>

text \<open>\<^verbatim>\<open>String.prototype.trim\<close> on the white space of Latin-1.\<close>

definition is_space :: "char \<Rightarrow> bool" where
  "is_space c = (c \<in> set [CHR 0x09, CHR 0x0A, CHR 0x0B, CHR 0x0C, CHR 0x0D, CHR 0x20, CHR 0xA0])"

definition trim :: "string \<Rightarrow> string" where
  "trim s = rev (dropWhile is_space (rev (dropWhile is_space s)))"

text \<open>\<^verbatim>\<open>s.replace(/\n/g, ' ')\<close>.\<close>

definition replace_newlines :: "string \<Rightarrow> string" where
  "replace_newlines s = map (\<lambda>c. if c = CHR 0x0A then CHR 0x20 else c) s"

text \<open>\<^verbatim>\<open>s.split(c)\<close> for a separator of one character.\<close>

fun split_on :: "char \<Rightarrow> string \<Rightarrow> string list" where
  "split_on c [] = [[]]"
| "split_on c (x # xs) =
     (if x = c then [] # split_on c xs
      else (case split_on c xs of [] \<Rightarrow> [[x]] | w # ws \<Rightarrow> (x # w) # ws))"

text \<open>\<^verbatim>\<open>s.replace(pat, rep)\<close> with a string pattern: the first occurrence only.\<close>

fun replace_first :: "string \<Rightarrow> string \<Rightarrow> string \<Rightarrow> string" where
  "replace_first pat rep [] = (if pat = [] then rep else [])"
| "replace_first pat rep (c # cs) =
     (if take (length pat) (c # cs) = pat then rep @ drop (length pat) (c # cs)
      else c # replace_first pat rep cs)"

text \<open>\<^verbatim>\<open>xs.join(sep)\<close>.\<close>

fun join :: "string \<Rightarrow> string list \<Rightarrow> string" where
  "join sep [] = []"
| "join sep [x] = x"
| "join sep (x # y # ys) = x @ sep @ join sep (y # ys)"

text \<open>The values of a list of computations in order, or the first error thrown.\<close>

fun collect :: "('e + 'a) list \<Rightarrow> 'e + 'a list" where
  "collect [] = Inr []"
| "collect (x # xs) =
     (case x of
        Inl e \<Rightarrow> Inl e
      | Inr v \<Rightarrow> (case collect xs of Inl e \<Rightarrow> Inl e | Inr vs \<Rightarrow> Inr (v # vs)))"

text \<open>
  \<^verbatim>\<open>String(v)\<close>, the conversion that a template literal, \<^verbatim>\<open>encodeURIComponent\<close> and
  \<^verbatim>\<open>JSON.parse\<close> apply to their argument. An array is the texts of its elements joined
  by commas, \<^verbatim>\<open>null\<close> counting as the empty text. A parsed object has the
  \<^verbatim>\<open>toString\<close> of \<^verbatim>\<open>Object.prototype\<close> unless a field of that name hides it; the
  field's value is never callable, and the conversion then throws a TypeError (the
  inherited \<^verbatim>\<open>valueOf\<close> returns the object itself, a field \<^verbatim>\<open>valueOf\<close> is not callable
  either). Only the decimal text of a number is left to the parameter \<open>num\<close>.
\<close>

fun json_text :: "(rat \<Rightarrow> string) \<Rightarrow> json \<Rightarrow> string + string" where
  "json_text num JNull = Inr ''null''"
| "json_text num (JBool b) = Inr (if b then ''true'' else ''false'')"
| "json_text num (JNum n) = Inr (num n)"
| "json_text num (JString s) = Inr s"
| "json_text num (JArray xs) =
     (case collect (map (\<lambda>x. case x of JNull \<Rightarrow> Inr [] | other \<Rightarrow> json_text num x) xs) of
        Inl e \<Rightarrow> Inl e
      | Inr parts \<Rightarrow> Inr (join '','' parts))"
| "json_text num (JObject kvs) =
     (case map_of kvs ''toString'' of
        None \<Rightarrow> Inr ''[object Object]''
      | Some f \<Rightarrow> Inl ''Cannot convert object to primitive value'')"

fun ToString :: "(rat \<Rightarrow> string) \<Rightarrow> json option \<Rightarrow> string + string" where
  "ToString num None = Inr ''undefined''"
| "ToString num (Some v) = json_text num v"

section \<open>Outbound calls\<close>

text \<open>
  What \<^verbatim>\<open>fetch\<close> gives back: the promise rejects (a network error, with its message) or
  resolves to a response. Reading the body as text or as JSON may reject in its turn.
\<close>

record response =
  ok :: bool
  status :: nat
  statusText :: string
  body_text :: "string + string"
  body_json :: "string + json"

datatype fetched = Rejected string | Resolved response

record paper =
  title :: string
  authors :: "string list"
  abstract :: string
  link :: string

record paper_analysis =
  pa_paper :: paper
  analysis :: json

text \<open>
  A prompt is kept as the template it instantiates together with the texts interpolated
  into it, in the order of the template; the fixed English of the templates is not
  reproduced. \<open>SummaryPrompt t a\<close> is the text of lines 105-107 with \<open>t\<close> after
  \<^verbatim>\<open>Title:\<close> and \<open>a\<close> after \<^verbatim>\<open>Abstract:\<close>; \<open>ConsolidatedPrompt ps\<close> that of lines
  144-147 with \<open>ps\<close> after \<^verbatim>\<open>Papers:\<close>; \<open>AnalysisPrompt t a\<close> that of lines 257-265;
  \<open>ReportPrompt q d ds\<close> that of lines 294-387 with \<open>q\<close> at each \<^verbatim>\<open>${query}\<close>, \<open>d\<close>
  after \<^verbatim>\<open>Generated on\<close> and \<open>ds\<close> after \<^verbatim>\<open>**Dataset:**\<close>; \<open>SuggestPrompt q\<close> that of
  lines 494-536 with \<open>q\<close> between the quotes of \<^verbatim>\<open>Original query:\<close>; \<open>TagPrompt q\<close>
  that of lines 579-580 with \<open>q\<close> between the quotes after \<^verbatim>\<open>for this query:\<close>.
\<close>

datatype prompt =
    SummaryPrompt string string
  | ConsolidatedPrompt string
  | AnalysisPrompt string string
  | ReportPrompt string string string
  | SuggestPrompt string
  | TagPrompt string

record completion_request =
  message_content :: prompt
  temperature :: rat
  max_tokens :: nat

datatype call =
    Search string nat
  | Complete completion_request
  | Insert "(string \<times> json) list"
  | GetUser "string option"

section \<open>Per-paper enrichment\<close>

definition summary_request :: "paper \<Rightarrow> completion_request" where
  "summary_request p =
     \<lparr>message_content = SummaryPrompt (title p) (take 1000 (abstract p)), temperature = 2 / 10, max_tokens = 100\<rparr>"

text \<open>The callback of \<^verbatim>\<open>searchPapers\<close>, lines 92-131, on the outcome of its \<^verbatim>\<open>fetch\<close>.\<close>

definition summarize :: "fetched \<Rightarrow> json" where
  "summarize r =
     (case r of
        Rejected e \<Rightarrow> JString ''Summary generation failed''
      | Resolved a \<Rightarrow>
          if \<not> ok a then
            (case body_text a of
               Inl e \<Rightarrow> JString ''Summary generation failed''
             | Inr errorText \<Rightarrow> JString ''Summary failed due to API error'')
          else
            (case body_json a of
               Inl e \<Rightarrow> JString ''Summary generation failed''
             | Inr d \<Rightarrow>
                 (case member (Some d) ''choices'' of
                    Inl e \<Rightarrow> JString ''Summary generation failed''
                  | Inr c \<Rightarrow>
                      if no_choices c then JString ''Summary failed: No valid response''
                      else or_else (first_content c) (JString ''Summary not available''))))"

definition analysis_request :: "paper \<Rightarrow> completion_request" where
  "analysis_request p =
     \<lparr>message_content = AnalysisPrompt (title p) (abstract p), temperature = 3 / 10, max_tokens = 500\<rparr>"

text \<open>The callback of the generate-report handler, lines 244-292.\<close>

definition analyse :: "paper \<Rightarrow> fetched \<Rightarrow> paper_analysis" where
  "analyse p r =
     (case r of
        Rejected e \<Rightarrow> \<lparr>pa_paper = p, analysis = JString ''Analysis failed due to server error''\<rparr>
      | Resolved a \<Rightarrow>
          if \<not> ok a then
            (case body_text a of
               Inl e \<Rightarrow> \<lparr>pa_paper = p, analysis = JString ''Analysis failed due to server error''\<rparr>
             | Inr errorText \<Rightarrow> \<lparr>pa_paper = p, analysis = JString ''Analysis failed due to API error''\<rparr>)
          else
            (case body_json a of
               Inl e \<Rightarrow> \<lparr>pa_paper = p, analysis = JString ''Analysis failed due to server error''\<rparr>
             | Inr d \<Rightarrow>
                 (case member (Some d) ''choices'' of
                    Inl e \<Rightarrow> \<lparr>pa_paper = p, analysis = JString ''Analysis failed due to server error''\<rparr>
                  | Inr c \<Rightarrow>
                      if no_choices c
                      then \<lparr>pa_paper = p, analysis = JString ''Analysis failed: No valid response from AI''\<rparr>
                      else \<lparr>pa_paper = p,
                            analysis = or_else (first_content c) (JString ''Analysis failed'')\<rparr>)))"

text \<open>
  \<^verbatim>\<open>Promise.all\<close> over callbacks that never reject (each body is one
  \<^verbatim>\<open>try\<close>/\<^verbatim>\<open>catch\<close> that returns on both sides): a result array sized up front, each
  slot written when the promise of that index settles, in whatever order the calls settle;
  the join resolves, to the slots in index order, once every slot is written, and stays
  pending (\<open>None\<close>) otherwise.
\<close>

fun settle :: "'a list \<Rightarrow> nat list \<Rightarrow> 'a option list \<Rightarrow> 'a option list" where
  "settle vs [] slots = slots"
| "settle vs (i # rest) slots =
     settle vs rest (if i < length vs then slots[i := Some (vs ! i)] else slots)"

definition Promise_all :: "'a list \<Rightarrow> nat list \<Rightarrow> 'a list option" where
  "Promise_all vs order = those (settle vs order (replicate (length vs) None))"

text \<open>
  An \<^verbatim>\<open>entry\<close> element of the search API's document, as the handlers read it: for each
  of the four tag names, the \<^verbatim>\<open>textContent\<close> of the elements
  \<^verbatim>\<open>getElementsByTagName\<close> finds (\<open>None\<close> where it is \<^verbatim>\<open>null\<close>).
\<close>

record entry =
  title_elems :: "string option list"
  author_elems :: "string option list"
  summary_elems :: "string option list"
  id_elems :: "string option list"

text \<open>\<^verbatim>\<open>els[0]?.textContent\<close>.\<close>

fun first_text :: "string option list \<Rightarrow> string option" where
  "first_text [] = None"
| "first_text (e # es) = e"

text \<open>\<^verbatim>\<open>s || ""\<close> on a string or \<^verbatim>\<open>undefined\<close>.\<close>

fun or_empty :: "string option \<Rightarrow> string" where
  "or_empty None = []"
| "or_empty (Some s) = s"

definition to_paper :: "entry \<Rightarrow> paper" where
  "to_paper e =
     \<lparr>title = or_empty (map_option (\<lambda>t. trim (replace_newlines t)) (first_text (title_elems e))),
      authors = map (\<lambda>a. or_empty (map_option trim a)) (author_elems e),
      abstract = or_empty (map_option trim (first_text (summary_elems e))),
      link = or_empty (first_text (id_elems e))\<rparr>"

text \<open>The answer of \<^verbatim>\<open>supabase.auth.getUser(token)\<close>: it rejects, or resolves to a user and an error.\<close>

datatype idp_result = IdpRejects string | IdpResult "json option" "json option"

text \<open>
  How the store answers the one insert a request may make: the call rejects, it resolves
  with an error, or it stores the row and resolves with it, completed by the columns the
  store generates.
\<close>

datatype store_behaviour = StoreRejects string | StoreError json | Stores "(string \<times> json) list"

text \<open>
  The world a request runs in: the answer of the search API and what the XML parser finds
  in its text (\<open>Inl\<close> where the parser throws), the answer to the completion call made
  for the paper at each index, the order in which those calls settle, the answer to the
  synthesis call that follows, the answers to the two calls of suggest-prompt, the
  identity service, the store, \<^verbatim>\<open>JSON.parse\<close> and \<^verbatim>\<open>encodeURIComponent\<close> on a text
  (\<open>Inl\<close> the SyntaxError or URIError thrown), the decimal text of a number, and the
  text of today's date.
\<close>

record world =
  arxiv :: fetched
  xml_entries :: "string \<Rightarrow> string + entry list"
  enrichment :: "nat \<Rightarrow> fetched"
  settled :: "nat list"
  synthesis :: fetched
  suggestion :: fetched
  tag_answer :: fetched
  identity :: "string option \<Rightarrow> idp_result"
  store :: store_behaviour
  JSON_parse :: "string \<Rightarrow> string + json"
  encodeURIComponent :: "string \<Rightarrow> string + string"
  number_text :: "rat \<Rightarrow> string"
  today :: string

definition enrich_summaries :: "world \<Rightarrow> paper list \<Rightarrow> json list option" where
  "enrich_summaries w papers =
     Promise_all (map (\<lambda>(i, p). summarize (enrichment w i)) (enumerate 0 papers)) (settled w)"

definition enrich_analyses :: "world \<Rightarrow> paper list \<Rightarrow> paper_analysis list option" where
  "enrich_analyses w papers =
     Promise_all (map (\<lambda>(i, p). analyse p (enrichment w i)) (enumerate 0 papers)) (settled w)"

section \<open>Request handlers\<close>

text \<open>
  What a handler does with the response object: it sends a JSON body with a status
  (\<^verbatim>\<open>res.json\<close>, status 200 unless \<^verbatim>\<open>res.status\<close> set another), it forwards a thrown
  error with \<^verbatim>\<open>next(error)\<close>, or it is still waiting for a call that never settles. A
  handler returns this together with the outbound calls it issued, in the order issued.
\<close>

datatype reply = Json nat json | Forward string | Pending

definition error_body :: "string \<Rightarrow> json" where
  "error_body msg = JObject [(''error'', JString msg)]"

definition paper_json :: "paper \<Rightarrow> json" where
  "paper_json p =
     JObject [(''title'', JString (title p)),
              (''authors'', JArray (map JString (authors p))),
              (''abstract'', JString (abstract p)),
              (''link'', JString (link p))]"

definition analysis_json :: "paper_analysis \<Rightarrow> json" where
  "analysis_json pa = JObject [(''paper'', paper_json (pa_paper pa)), (''analysis'', analysis pa)]"

text \<open>
  \<^verbatim>\<open>encodeURIComponent(query)\<close> inside the URL of the search: the query is turned into
  a text, which throws for an object that hides \<^verbatim>\<open>toString\<close>, and the text is encoded,
  which throws for a text that is no well-formed UTF-16.
\<close>

definition search_component :: "world \<Rightarrow> json \<Rightarrow> string + string" where
  "search_component w q =
     (case ToString (number_text w) (Some q) of
        Inl e \<Rightarrow> Inl e
      | Inr txt \<Rightarrow> encodeURIComponent w txt)"

subsection \<open>search-papers\<close>

definition consolidated_request :: "paper list \<Rightarrow> completion_request" where
  "consolidated_request papers =
     \<lparr>message_content = ConsolidatedPrompt
                  (join [CHR 0x0A, CHR 0x0A] (map (\<lambda>p. title p @ [CHR 0x0A] @ abstract p) papers)),
      temperature = 3 / 10, max_tokens = 200\<rparr>"

text \<open>Lines 133-166: the consolidated overview, or the error thrown on the way.\<close>

definition consolidate :: "fetched \<Rightarrow> string + json" where
  "consolidate r =
     (case r of
        Rejected e \<Rightarrow> Inl e
      | Resolved a \<Rightarrow>
          if \<not> ok a then
            (case body_text a of
               Inl e \<Rightarrow> Inl e
             | Inr errorText \<Rightarrow> Inl ''Failed to generate consolidated summary'')
          else
            (case body_json a of
               Inl e \<Rightarrow> Inl e
             | Inr d \<Rightarrow>
                 (case member (Some d) ''choices'' of
                    Inl e \<Rightarrow> Inl e
                  | Inr c \<Rightarrow>
                      if no_choices c then Inl ''Invalid consolidated summary response''
                      else Inr (or_else (first_content c) (JString ''Overview not available'')))))"

text \<open>Lines 85-168, once the entries are known not to be empty; \<open>u\<close> is the encoded query.\<close>

definition search_enriched :: "world \<Rightarrow> string \<Rightarrow> paper list \<Rightarrow> reply \<times> call list" where
  "search_enriched w u papers =
     (let calls = Search u 6 # map (\<lambda>p. Complete (summary_request p)) papers
      in case enrich_summaries w papers of
           None \<Rightarrow> (Pending, calls)
         | Some summaries \<Rightarrow>
             (case consolidate (synthesis w) of
                Inl e \<Rightarrow> (Json 500 (error_body e), calls @ [Complete (consolidated_request papers)])
              | Inr consolidatedSummary \<Rightarrow>
                  (Json 200 (JObject [(''papers'', JArray (map paper_json papers)),
                                      (''summaries'', JArray summaries),
                                      (''consolidatedSummary'', consolidatedSummary)]),
                   calls @ [Complete (consolidated_request papers)])))"

text \<open>Lines 67-168: the search and what follows it, given the encoded query.\<close>

definition search_fetched :: "world \<Rightarrow> string \<Rightarrow> reply \<times> call list" where
  "search_fetched w u =
     (case arxiv w of
        Rejected e \<Rightarrow> (Json 500 (error_body e), [Search u 6])
      | Resolved a \<Rightarrow>
          if \<not> ok a
          then (Json 500 (error_body (''ArXiv API error: '' @ statusText a)), [Search u 6])
          else
            (case body_text a of
               Inl e \<Rightarrow> (Json 500 (error_body e), [Search u 6])
             | Inr xmlData \<Rightarrow>
                 (case xml_entries w xmlData of
                    Inl e \<Rightarrow> (Json 500 (error_body e), [Search u 6])
                  | Inr entries \<Rightarrow>
                      if entries = []
                      then (Json 200 (JObject [(''papers'', JArray []),
                                               (''summaries'', JArray []),
                                               (''consolidatedSummary'', JString [])]),
                            [Search u 6])
                      else search_enriched w u (map to_paper entries))))"

text \<open>
  \<^verbatim>\<open>searchPapers\<close> under the wrapper of its route (lines 58-174 and 200-206); the
  destructuring of the body stands outside the handler's \<^verbatim>\<open>try\<close>, so what it throws goes
  to \<^verbatim>\<open>next\<close>. An error thrown while the URL is built is caught like any other, before
  the search is called.
\<close>

definition searchPapers :: "world \<Rightarrow> json option \<Rightarrow> reply \<times> call list" where
  "searchPapers w body =
     (case destructure body ''query'' of
        Inl e \<Rightarrow> (Forward e, [])
      | Inr None \<Rightarrow> (Json 400 (error_body ''Query is required''), [])
      | Inr (Some q) \<Rightarrow>
          if \<not> truthy (Some q) then (Json 400 (error_body ''Query is required''), [])
          else
            (case search_component w q of
               Inl e \<Rightarrow> (Json 500 (error_body e), [])
             | Inr u \<Rightarrow> search_fetched w u))"

subsection \<open>generate-report\<close>

text \<open>
  Lines 218-242: the papers, or \<open>None\<close> where the inner \<^verbatim>\<open>catch\<close> answers, with the
  calls issued; the search is not called when building its URL throws.
\<close>

definition report_papers :: "world \<Rightarrow> json \<Rightarrow> paper list option \<times> call list" where
  "report_papers w q =
     (case search_component w q of
        Inl e \<Rightarrow> (None, [])
      | Inr u \<Rightarrow>
          (case arxiv w of
             Rejected e \<Rightarrow> (None, [Search u 5])
           | Resolved a \<Rightarrow>
               if \<not> ok a then (None, [Search u 5])
               else
                 (case body_text a of
                    Inl e \<Rightarrow> (None, [Search u 5])
                  | Inr xmlData \<Rightarrow>
                      (case xml_entries w xmlData of
                         Inl e \<Rightarrow> (None, [Search u 5])
                       | Inr entries \<Rightarrow> (Some (map to_paper entries), [Search u 5])))))"

text \<open>
  One element of the dataset that closes the report prompt, lines 381-387; the analysis
  is any value the completion service gave as content, and turning it into text may throw.
\<close>

definition dataset_entry :: "(rat \<Rightarrow> string) \<Rightarrow> paper_analysis \<Rightarrow> string + string" where
  "dataset_entry num pa =
     (case ToString num (Some (analysis pa)) of
        Inl e \<Rightarrow> Inl e
      | Inr analysisText \<Rightarrow>
          Inr (''Title: **'' @ title (pa_paper pa) @ ''**  '' @ [CHR 0x0A] @
               ''   Authors: '' @ join '', '' (authors (pa_paper pa)) @ ''  '' @ [CHR 0x0A] @
               ''   Abstract: '' @ abstract (pa_paper pa) @ ''  '' @ [CHR 0x0A] @
               ''   Analysis: '' @ analysisText @ ''  '' @ [CHR 0x0A] @
               ''  ''))"

text \<open>
  Lines 294-387: the report prompt from the text of the query, the date and the dataset,
  or the TypeError thrown while the template is filled.
\<close>

definition report_request :: "world \<Rightarrow> json \<Rightarrow> paper_analysis list \<Rightarrow> string + completion_request" where
  "report_request w q paperAnalyses =
     (case ToString (number_text w) (Some q) of
        Inl e \<Rightarrow> Inl e
      | Inr queryText \<Rightarrow>
          (case collect (map (dataset_entry (number_text w)) paperAnalyses) of
             Inl e \<Rightarrow> Inl e
           | Inr entries \<Rightarrow>
               Inr \<lparr>message_content = ReportPrompt queryText (today w) (join [CHR 0x0A] entries),
                    temperature = 3 / 10, max_tokens = 2000\<rparr>))"

text \<open>
  Lines 400-430: the report text, or \<open>None\<close> where anything is thrown; the enclosing
  \<^verbatim>\<open>catch\<close> answers every such error alike.
\<close>

definition final_report :: "fetched \<Rightarrow> json option" where
  "final_report r =
     (case r of
        Rejected e \<Rightarrow> None
      | Resolved a \<Rightarrow>
          if \<not> ok a then None
          else
            (case body_json a of
               Inl e \<Rightarrow> None
             | Inr d \<Rightarrow>
                 (case member (Some d) ''choices'' of
                    Inl e \<Rightarrow> None
                  | Inr c \<Rightarrow>
                      if no_choices c then None
                      else if truthy (first_content c) then first_content c else None)))"

text \<open>
  Modelled from the spec: the persistence collaborator behind
  \<^verbatim>\<open>supabase.from('reports').insert(row).select().single()\<close>, which is no code of this
  repository. The spec gives it insert-and-return-record semantics: a successful insert
  appends one row to the table, the inserted columns with the columns the store generates
  beside them, and resolves with \<^verbatim>\<open>{data: row, error: null}\<close>; a failed one stores nothing
  and resolves with \<^verbatim>\<open>{data: null, error}\<close>, or rejects. The result is the new table with
  \<^verbatim>\<open>data\<close> and \<^verbatim>\<open>error\<close>.
\<close>

definition db_insert ::
  "store_behaviour \<Rightarrow> (string \<times> json) list list \<Rightarrow> (string \<times> json) list \<Rightarrow>
   string + ((string \<times> json) list list \<times> json option \<times> json option)" where
  "db_insert b table row =
     (case b of
        StoreRejects e \<Rightarrow> Inl e
      | StoreError err \<Rightarrow> Inr (table, Some JNull, Some err)
      | Stores generated \<Rightarrow>
          (let stored = row @ filter (\<lambda>(k, v). k \<notin> set (map fst row)) generated
           in Inr (table @ [stored], Some (JObject stored), Some JNull)))"

text \<open>
  Lines 432-467: the save and the answer, given the report text. The message of a save
  error is put into a template inside the \<^verbatim>\<open>try\<close>: what that throws is answered by the
  same \<^verbatim>\<open>catch\<close>.
\<close>

definition save_report ::
  "world \<Rightarrow> (string \<times> json) list list \<Rightarrow> json option \<Rightarrow> json \<Rightarrow> json \<Rightarrow> paper_analysis list \<Rightarrow>
   reply \<times> call list \<times> (string \<times> json) list list" where
  "save_report w table user q finalReport paperAnalyses =
     (if \<not> truthy user then (Json 500 (error_body ''No authenticated user found''), [], table)
      else
        (case opt_member user ''id'' of
           None \<Rightarrow> (Json 500 (error_body ''No authenticated user found''), [], table)
         | Some uid \<Rightarrow>
             if \<not> truthy (Some uid)
             then (Json 500 (error_body ''No authenticated user found''), [], table)
             else
               (let row = [(''user_id'', uid), (''title'', q), (''content'', finalReport)]
                in case db_insert (store w) table row of
                     Inl e \<Rightarrow> (Json 500 (error_body e), [Insert row], table)
                   | Inr (table', reportRecord, saveError) \<Rightarrow>
                       if truthy saveError
                       then
                         (case ToString (number_text w) (opt_member saveError ''message'') of
                            Inl e \<Rightarrow> (Json 500 (error_body e), [Insert row], table')
                          | Inr msg \<Rightarrow>
                              (Json 500 (error_body (''Failed to save report: '' @ msg)),
                               [Insert row], table'))
                       else
                         (case reportRecord of
                            None \<Rightarrow> (Json 500 (error_body ''No report record returned after save''),
                                     [Insert row], table')
                          | Some r \<Rightarrow>
                              if \<not> truthy (Some r)
                              then (Json 500 (error_body ''No report record returned after save''),
                                    [Insert row], table')
                              else (Json 200 (JObject [(''report'', finalReport),
                                                       (''papers'', JArray (map analysis_json paperAnalyses)),
                                                       (''savedReport'', r)]),
                                    [Insert row], table')))))"

text \<open>
  Lines 244-471, once the papers are fetched; \<open>searched\<close> is the call already made. What
  the template of the report prompt throws reaches the outermost \<^verbatim>\<open>catch\<close>, which
  answers with the error's message.
\<close>

definition report_enriched ::
  "world \<Rightarrow> (string \<times> json) list list \<Rightarrow> json option \<Rightarrow> json \<Rightarrow> call list \<Rightarrow> paper list \<Rightarrow>
   reply \<times> call list \<times> (string \<times> json) list list" where
  "report_enriched w table user q searched papers =
     (let calls = searched @ map (\<lambda>p. Complete (analysis_request p)) papers
      in case enrich_analyses w papers of
           None \<Rightarrow> (Pending, calls, table)
         | Some paperAnalyses \<Rightarrow>
             (case report_request w q paperAnalyses of
                Inl e \<Rightarrow> (Json 500 (error_body e), calls, table)
              | Inr request \<Rightarrow>
                  (let calls' = calls @ [Complete request]
                   in case final_report (synthesis w) of
                        None \<Rightarrow> (Json 500 (error_body ''Failed to generate report content''), calls', table)
                      | Some finalReport \<Rightarrow>
                          (case save_report w table user q finalReport paperAnalyses of
                             (r, cs, table') \<Rightarrow> (r, calls' @ cs, table')))))"

text \<open>
  The handler of \<^verbatim>\<open>/api/generate-report\<close>, lines 208-478, on the table of stored
  reports, the user the middleware left on the request, and the body.
\<close>

definition generate_report ::
  "world \<Rightarrow> (string \<times> json) list list \<Rightarrow> json option \<Rightarrow> json option \<Rightarrow>
   reply \<times> call list \<times> (string \<times> json) list list" where
  "generate_report w table user body =
     (case destructure body ''query'' of
        Inl e \<Rightarrow> (Json 500 (error_body e), [], table)
      | Inr None \<Rightarrow> (Json 400 (error_body ''Query is required''), [], table)
      | Inr (Some q) \<Rightarrow>
          if \<not> truthy (Some q) then (Json 400 (error_body ''Query is required''), [], table)
          else
            (case report_papers w q of
               (None, searched) \<Rightarrow>
                 (Json 500 (error_body ''Failed to fetch papers from arXiv''), searched, table)
             | (Some papers, searched) \<Rightarrow> report_enriched w table user q searched papers))"

subsection \<open>suggest-prompt\<close>

definition tag_request :: "string \<Rightarrow> completion_request" where
  "tag_request query = \<lparr>message_content = TagPrompt query, temperature = 2 / 10, max_tokens = 100\<rparr>"

text \<open>
  Lines 587-603 of \<^verbatim>\<open>getResearchTags\<close>: the tags read from the answer of its
  \<^verbatim>\<open>fetch\<close>. In the chain \<^verbatim>\<open>data.choices[0]?.message?.content.split(',')\<close> a missing
  first choice or message ends the chain with \<^verbatim>\<open>undefined\<close>, a content that is no
  string throws inside the \<^verbatim>\<open>try\<close>: the result is the empty list either way.
\<close>

definition tags_of_answer :: "fetched \<Rightarrow> string list" where
  "tags_of_answer r =
     (case r of
        Rejected e \<Rightarrow> []
      | Resolved a \<Rightarrow>
          if \<not> ok a then []
          else
            (case body_json a of
               Inl e \<Rightarrow> []
             | Inr d \<Rightarrow>
                 (case member (Some d) ''choices'' of
                    Inl e \<Rightarrow> []
                  | Inr c \<Rightarrow>
                      if no_choices c then []
                      else
                        (case opt_member (opt_member (elem0 c) ''message'') ''content'' of
                           Some (JString s) \<Rightarrow> map trim (split_on CHR '','' s)
                         | other \<Rightarrow> []))))"

text \<open>
  \<^verbatim>\<open>getResearchTags\<close>, lines 566-604, with the call it issues. The prompt is a template
  filled inside the \<^verbatim>\<open>try\<close>: where that throws, no call is made and the list is empty.
\<close>

definition getResearchTags :: "world \<Rightarrow> json option \<Rightarrow> string list \<times> call list" where
  "getResearchTags w query =
     (case ToString (number_text w) query of
        Inl e \<Rightarrow> ([], [])
      | Inr queryText \<Rightarrow> (tags_of_answer (tag_answer w), [Complete (tag_request queryText)]))"

text \<open>
  \<^verbatim>\<open>JSON.parse(content || '{}')\<close>: the argument is turned into a text first, which may
  throw; the literal of the source parses to the empty object, any other text is left to
  the world's parser.
\<close>

definition parse_suggestions :: "world \<Rightarrow> json option \<Rightarrow> string + json" where
  "parse_suggestions w c =
     (case (if truthy c then ToString (number_text w) c else Inr ''{}'') of
        Inl e \<Rightarrow> Inl e
      | Inr txt \<Rightarrow> if txt = ''{}'' then Inr (JObject []) else JSON_parse w txt)"

text \<open>
  \<^verbatim>\<open>suggestions.researchTags = researchTags\<close> followed by \<^verbatim>\<open>res.json(suggestions)\<close>:
  the value that is sent. An object gets the field, in place if it has one already; an
  array keeps the property to itself, since serialisation writes the elements only; on
  \<^verbatim>\<open>null\<close> and, the module being strict code, on a string, a number or a boolean the
  assignment throws.
\<close>

fun assign_researchTags :: "(rat \<Rightarrow> string) \<Rightarrow> json \<Rightarrow> json \<Rightarrow> string + json" where
  "assign_researchTags num (JObject kvs) v = Inr (JObject (AList.update ''researchTags'' v kvs))"
| "assign_researchTags num (JArray xs) v = Inr (JArray xs)"
| "assign_researchTags num JNull v =
     Inl (''Cannot set properties of null (setting '' @ [CHR 0x27] @ ''researchTags'' @ [CHR 0x27] @ '')'')"
| "assign_researchTags num (JString s) v =
     Inl (''Cannot create property '' @ [CHR 0x27] @ ''researchTags'' @ [CHR 0x27] @ '' on string '' @
          [CHR 0x27] @ s @ [CHR 0x27])"
| "assign_researchTags num (JBool b) v =
     Inl (''Cannot create property '' @ [CHR 0x27] @ ''researchTags'' @ [CHR 0x27] @ '' on boolean '' @
          [CHR 0x27] @ (if b then ''true'' else ''false'') @ [CHR 0x27])"
| "assign_researchTags num (JNum n) v =
     Inl (''Cannot create property '' @ [CHR 0x27] @ ''researchTags'' @ [CHR 0x27] @ '' on number '' @
          [CHR 0x27] @ num n @ [CHR 0x27])"

text \<open>Lines 555-560, given the content of the first choice: parse, tag call, assignment, answer.\<close>

definition suggest_respond :: "world \<Rightarrow> json option \<Rightarrow> json option \<Rightarrow> reply \<times> call list" where
  "suggest_respond w initialQuery c =
     (case parse_suggestions w c of
        Inl e \<Rightarrow> (Forward e, [])
      | Inr suggestions \<Rightarrow>
          (case getResearchTags w initialQuery of
             (researchTags, cs) \<Rightarrow>
               (case assign_researchTags (number_text w) suggestions (JArray (map JString researchTags)) of
                  Inl e \<Rightarrow> (Forward e, cs)
                | Inr sent \<Rightarrow> (Json 200 sent, cs))))"

definition suggest_request :: "string \<Rightarrow> completion_request" where
  "suggest_request query = \<lparr>message_content = SuggestPrompt query, temperature = 3 / 10, max_tokens = 800\<rparr>"

text \<open>Lines 543-555: the content of the first choice of the suggestion, or the error thrown on the way.\<close>

definition suggest_content :: "fetched \<Rightarrow> string + json option" where
  "suggest_content r =
     (case r of
        Rejected e \<Rightarrow> Inl e
      | Resolved a \<Rightarrow>
          if \<not> ok a then
            (case body_text a of
               Inl e \<Rightarrow> Inl e
             | Inr errorText \<Rightarrow> Inl ''Failed to generate prompt suggestion'')
          else
            (case body_json a of
               Inl e \<Rightarrow> Inl e
             | Inr d \<Rightarrow>
                 (case member (Some d) ''choices'' of
                    Inl e \<Rightarrow> Inl e
                  | Inr c \<Rightarrow>
                      if no_choices c then Inl ''Invalid suggestion response''
                      else Inr (first_content c))))"

text \<open>
  The handler of \<^verbatim>\<open>/api/suggest-prompt\<close>, lines 480-564; every error goes to
  \<^verbatim>\<open>next\<close>, the first of them the TypeError of a query that cannot be put into the
  template of the prompt, thrown before any call is made.
\<close>

definition suggest_prompt :: "world \<Rightarrow> json option \<Rightarrow> reply \<times> call list" where
  "suggest_prompt w body =
     (case destructure body ''initialQuery'' of
        Inl e \<Rightarrow> (Forward e, [])
      | Inr initialQuery \<Rightarrow>
          (case ToString (number_text w) initialQuery of
             Inl e \<Rightarrow> (Forward e, [])
           | Inr query \<Rightarrow>
               (let calls = [Complete (suggest_request query)]
                in case suggest_content (suggestion w) of
                     Inl e \<Rightarrow> (Forward e, calls)
                   | Inr c \<Rightarrow>
                       (case suggest_respond w initialQuery c of (r, cs) \<Rightarrow> (r, calls @ cs)))))"

subsection \<open>Authentication\<close>

text \<open>What a middleware does: it answers the request itself, or it hands it on with the user.\<close>

datatype gate = Deny nat json | Allow "json option"

text \<open>Lines 184-198 of \<^verbatim>\<open>authenticateUser\<close> and 80-92 of \<^verbatim>\<open>authenticateToken\<close>: the check of the token.\<close>

definition check_token :: "(string option \<Rightarrow> idp_result) \<Rightarrow> string option \<Rightarrow> gate \<times> call list" where
  "check_token getUser token =
     (case getUser token of
        IdpRejects e \<Rightarrow> (Deny 401 (error_body ''Authentication failed''), [GetUser token])
      | IdpResult user error \<Rightarrow>
          if truthy error then (Deny 401 (error_body ''Invalid token''), [GetUser token])
          else if \<not> truthy user then (Deny 401 (error_body ''Invalid token''), [GetUser token])
          else (Allow user, [GetUser token]))"

text \<open>\<^verbatim>\<open>xs[1]\<close>.\<close>

fun elem1 :: "'a list \<Rightarrow> 'a option" where
  "elem1 (x # y # ys) = Some y"
| "elem1 xs = None"

text \<open>\<^verbatim>\<open>authenticateToken\<close> of \<^verbatim>\<open>middleware/auth.ts\<close>, on the Authorization header.\<close>

definition authenticateToken ::
  "(string option \<Rightarrow> idp_result) \<Rightarrow> string option \<Rightarrow> gate \<times> call list" where
  "authenticateToken getUser authHeader =
     (case authHeader of
        None \<Rightarrow> (Deny 401 (error_body ''No token provided''), [])
      | Some h \<Rightarrow>
          if take 7 h \<noteq> ''Bearer '' then (Deny 401 (error_body ''No token provided''), [])
          else check_token getUser (elem1 (split_on CHR '' '' h)))"

text \<open>\<^verbatim>\<open>authenticateUser\<close> of \<^verbatim>\<open>server.ts\<close>, lines 176-198.\<close>

definition authenticateUser ::
  "(string option \<Rightarrow> idp_result) \<Rightarrow> string option \<Rightarrow> gate \<times> call list" where
  "authenticateUser getUser authHeader =
     (case authHeader of
        None \<Rightarrow> (Deny 401 (error_body ''No authorization header''), [])
      | Some h \<Rightarrow>
          if h = [] then (Deny 401 (error_body ''No authorization header''), [])
          else check_token getUser (Some (replace_first ''Bearer '' [] h)))"

subsection \<open>Routes\<close>

text \<open>\<^verbatim>\<open>router.post(path, middleware, handler)\<close>: the handler runs only if the middleware calls \<^verbatim>\<open>next()\<close>.\<close>

definition route_search_papers :: "world \<Rightarrow> string option \<Rightarrow> json option \<Rightarrow> reply \<times> call list" where
  "route_search_papers w authHeader body =
     (case authenticateToken (identity w) authHeader of
        (Deny st b, cs) \<Rightarrow> (Json st b, cs)
      | (Allow user, cs) \<Rightarrow> (case searchPapers w body of (r, cs') \<Rightarrow> (r, cs @ cs')))"

definition route_generate_report ::
  "world \<Rightarrow> (string \<times> json) list list \<Rightarrow> string option \<Rightarrow> json option \<Rightarrow>
   reply \<times> call list \<times> (string \<times> json) list list" where
  "route_generate_report w table authHeader body =
     (case authenticateToken (identity w) authHeader of
        (Deny st b, cs) \<Rightarrow> (Json st b, cs, table)
      | (Allow user, cs) \<Rightarrow>
          (case generate_report w table user body of (r, cs', table') \<Rightarrow> (r, cs @ cs', table')))"

definition route_suggest_prompt :: "world \<Rightarrow> string option \<Rightarrow> json option \<Rightarrow> reply \<times> call list" where
  "route_suggest_prompt w authHeader body =
     (case authenticateUser (identity w) authHeader of
        (Deny st b, cs) \<Rightarrow> (Json st b, cs)
      | (Allow user, cs) \<Rightarrow> (case suggest_prompt w body of (r, cs') \<Rightarrow> (r, cs @ cs')))"

section \<open>Kinds of calls\<close>

text \<open>
  When the tag call counts as failed: an error is thrown (by the call, while the body is
  read, or at \<^verbatim>\<open>.content.split\<close> on a content that is no string), the status is no
  success, or the body is invalid (choices missing, no array or empty, or no message in the
  first choice). These are all the answers that give no content text.
\<close>

definition tag_call_fails :: "fetched \<Rightarrow> bool" where
  "tag_call_fails r =
     (case r of
        Rejected e \<Rightarrow> True
      | Resolved a \<Rightarrow>
          if \<not> ok a then True
          else
            (case body_json a of
               Inl e \<Rightarrow> True
             | Inr d \<Rightarrow>
                 (case member (Some d) ''choices'' of
                    Inl e \<Rightarrow> True
                  | Inr c \<Rightarrow>
                      if no_choices c then True
                      else (case first_content c of Some (JString s) \<Rightarrow> False | other \<Rightarrow> True))))"

text \<open>The calls to the completion endpoint and to the store, among the calls of a request.\<close>

definition is_completion :: "call \<Rightarrow> bool" where
  "is_completion c = (case c of Complete rq \<Rightarrow> True | other \<Rightarrow> False)"

definition is_insert :: "call \<Rightarrow> bool" where
  "is_insert c = (case c of Insert row \<Rightarrow> True | other \<Rightarrow> False)"

section \<open>Sample inputs\<close>

text \<open>
  Concrete answers, a world and two papers, on which the properties below are evaluated:
  a completion body with one choice, an answer with status 500, a search document
  without entries, a user, and a world whose first per-paper call is rejected and whose
  calls settle in reverse order.
\<close>

definition completion_body :: "json \<Rightarrow> json" where
  "completion_body v = JObject [(''choices'', JArray [JObject [(''message'', JObject [(''content'', v)])]])]"

definition replied :: "json \<Rightarrow> fetched" where
  "replied v = Resolved \<lparr>ok = True, status = 200, statusText = ''OK'', body_text = Inr [], body_json = Inr (completion_body v)\<rparr>"

definition http_error :: fetched where
  "http_error = Resolved \<lparr>ok = False, status = 500, statusText = ''Internal Server Error'',
                           body_text = Inr ''upstream failure'', body_json = Inl ''Unexpected token u in JSON''\<rparr>"

definition empty_feed :: fetched where
  "empty_feed = Resolved \<lparr>ok = True, status = 200, statusText = ''OK'',
                           body_text = Inr ''<feed/>'', body_json = Inl ''Unexpected token < in JSON''\<rparr>"

definition demo_user :: json where
  "demo_user = JObject [(''id'', JString ''u-1'')]"

text \<open>The text \<^verbatim>\<open>{"refinedQuery":"evaluation of language models"}\<close> and the object it parses to.\<close>

definition reply_text :: string where
  "reply_text = ''{'' @ [CHR 0x22] @ ''refinedQuery'' @ [CHR 0x22] @ '':'' @
                [CHR 0x22] @ ''evaluation of language models'' @ [CHR 0x22] @ ''}''"

definition reply_object :: json where
  "reply_object = JObject [(''refinedQuery'', JString ''evaluation of language models'')]"

definition demo_getUser :: "string option \<Rightarrow> idp_result" where
  "demo_getUser t =
     (if t = Some ''tok123'' then IdpResult (Some demo_user) (Some JNull)
      else IdpResult (Some JNull) (Some (JObject [(''message'', JString ''invalid JWT'')])))"

definition demo_xml_entries :: "string \<Rightarrow> string + entry list" where
  "demo_xml_entries xml = (if xml = ''<feed/>'' then Inr [] else Inl ''invalid document'')"

definition demo_enrichment :: "nat \<Rightarrow> fetched" where
  "demo_enrichment i = (if i = 0 then Rejected ''socket hang up'' else replied (JString ''two bullet points''))"

text \<open>A parser that knows three texts: the reply above, \<^verbatim>\<open>null\<close> and \<^verbatim>\<open>[]\<close>.\<close>

definition demo_parse :: "string \<Rightarrow> string + json" where
  "demo_parse s =
     (if s = reply_text then Inr reply_object
      else if s = ''null'' then Inr JNull
      else if s = ''[]'' then Inr (JArray [])
      else Inl ''Unexpected token'')"

text \<open>An encoder that knows the one query \<^verbatim>\<open>q\<close>, which it leaves as it is.\<close>

definition demo_encode :: "string \<Rightarrow> string + string" where
  "demo_encode s = (if s = ''q'' then Inr ''q'' else Inl ''URI malformed'')"

definition demo_number_text :: "rat \<Rightarrow> string" where
  "demo_number_text n = (if n = 0 then ''0'' else ''1'')"

definition demo_world :: world where
  "demo_world =
     \<lparr>arxiv = empty_feed,
      xml_entries = demo_xml_entries,
      enrichment = demo_enrichment,
      settled = [1, 0],
      synthesis = replied (JString ''# Report''),
      suggestion = replied (JString reply_text),
      tag_answer = http_error,
      identity = demo_getUser,
      store = Stores [(''id'', JNum 1)],
      JSON_parse = demo_parse,
      encodeURIComponent = demo_encode,
      number_text = demo_number_text,
      today = ''11/3/2026''\<rparr>"

text \<open>The same world where the model replies with the text \<^verbatim>\<open>{}\<close>, \<^verbatim>\<open>null\<close> or \<^verbatim>\<open>[]\<close>.\<close>

definition bare_world :: world where
  "bare_world = demo_world\<lparr>suggestion := replied (JString ''{}'')\<rparr>"

definition null_world :: world where
  "null_world = demo_world\<lparr>suggestion := replied (JString ''null'')\<rparr>"

definition array_world :: world where
  "array_world = demo_world\<lparr>suggestion := replied (JString ''[]'')\<rparr>"

text \<open>The same world where every per-paper call is answered with status 500.\<close>

definition all_failing :: "nat \<Rightarrow> fetched" where
  "all_failing i = http_error"

definition api_error_world :: world where
  "api_error_world = demo_world\<lparr>enrichment := all_failing, settled := [0]\<rparr>"

definition paperA :: paper where
  "paperA = \<lparr>title = ''A'', authors = [''Ann''], abstract = ''first'', link = ''http://arxiv.org/abs/1''\<rparr>"

definition paperB :: paper where
  "paperB = \<lparr>title = ''B'', authors = [], abstract = ''second'', link = ''http://arxiv.org/abs/2''\<rparr>"

section \<open>Properties\<close>

lemma settle_length: "length (settle vs order slots) = length slots"
  by (induction order arbitrary: slots) auto

lemma settle_nth:
  "length slots = length vs \<Longrightarrow> j < length vs \<Longrightarrow>
   settle vs order slots ! j = (if j \<in> set order then Some (vs ! j) else slots ! j)"
proof (induction order arbitrary: slots)
  case Nil
  then show ?case by simp
next
  case (Cons i rest)
  show ?case
  proof (cases "i < length vs")
    case True
    let ?s = "slots[i := Some (vs ! i)]"
    have "settle vs rest ?s ! j = (if j \<in> set rest then Some (vs ! j) else ?s ! j)"
      using Cons.IH [of ?s] Cons.prems by simp
    then show ?thesis using True Cons.prems by (auto simp: nth_list_update)
  next
    case False
    then have "i \<noteq> j" using Cons.prems by auto
    then show ?thesis using False Cons.IH [of slots] Cons.prems by auto
  qed
qed

lemma those_map_Some: "those (map Some xs) = Some xs"
  by (induction xs) auto

lemma Promise_all_settled:
  assumes "{..<length vs} \<subseteq> set order"
  shows "Promise_all vs order = Some vs"
proof -
  let ?r = "settle vs order (replicate (length vs) None)"
  have len: "length ?r = length vs" by (simp add: settle_length)
  have "?r ! j = Some (vs ! j)" if "j < length vs" for j
    using settle_nth [of "replicate (length vs) None" vs j order] that assms by auto
  then have "?r = map Some vs" using len by (intro nth_equalityI) auto
  then show ?thesis by (simp add: Promise_all_def those_map_Some)
qed

subsection \<open>Enrichment batches\<close>

lemma enrich_summaries_settled:
  assumes "{..<length papers} \<subseteq> set (settled w)"
  shows "enrich_summaries w papers = Some (map (\<lambda>(i, p). summarize (enrichment w i)) (enumerate 0 papers))"
  unfolding enrich_summaries_def using assms by (intro Promise_all_settled) simp

lemma enrich_analyses_settled:
  assumes "{..<length papers} \<subseteq> set (settled w)"
  shows "enrich_analyses w papers = Some (map (\<lambda>(i, p). analyse p (enrichment w i)) (enumerate 0 papers))"
  unfolding enrich_analyses_def using assms by (intro Promise_all_settled) simp

lemma analyse_paper: "pa_paper (analyse p r) = p"
  by (simp add: analyse_def split: fetched.split sum.split)

text \<open>
  C1. An enrichment batch over \<open>N\<close> papers, in summary mode (search flow) and in analysis
  mode (report flow), resolves to a sequence of length \<open>N\<close> whose \<open>i\<close>-th element is the
  enrichment of the \<open>i\<close>-th paper, whatever the answers to the individual calls and
  whatever the order in which the calls settle, provided each of them settles.
\<close>

theorem enrichment_positional:
  assumes "{..<length papers} \<subseteq> set (settled w)"
  shows "(\<exists>ss. enrich_summaries w papers = Some ss \<and> length ss = length papers \<and>
              (\<forall>i<length papers. ss ! i = summarize (enrichment w i))) \<and>
         (\<exists>as. enrich_analyses w papers = Some as \<and> length as = length papers \<and>
              (\<forall>i<length papers. as ! i = analyse (papers ! i) (enrichment w i) \<and>
                                  pa_paper (as ! i) = papers ! i))"
proof (intro conjI)
  show "\<exists>ss. enrich_summaries w papers = Some ss \<and> length ss = length papers \<and>
             (\<forall>i<length papers. ss ! i = summarize (enrichment w i))"
    by (simp add: enrich_summaries_settled [OF assms] nth_enumerate_eq)
  show "\<exists>as. enrich_analyses w papers = Some as \<and> length as = length papers \<and>
             (\<forall>i<length papers. as ! i = analyse (papers ! i) (enrichment w i) \<and>
                                 pa_paper (as ! i) = papers ! i)"
    by (simp add: enrich_analyses_settled [OF assms] nth_enumerate_eq analyse_paper)
qed

theorem enrichment_positional_witness:
  "{..<length [paperA, paperB]} \<subseteq> set (settled demo_world) \<and>
   (\<exists>ss. enrich_summaries demo_world [paperA, paperB] = Some ss \<and> length ss = 2 \<and>
         ss ! 0 = JString ''Summary generation failed'' \<and> ss ! 1 = JString ''two bullet points'') \<and>
   (\<exists>as. enrich_analyses demo_world [paperA, paperB] = Some as \<and> length as = 2 \<and>
         pa_paper (as ! 0) = paperA \<and> pa_paper (as ! 1) = paperB)"
proof -
  have h: "{..<length [paperA, paperB]} \<subseteq> set (settled demo_world)"
    by (auto simp: demo_world_def)
  have s0: "summarize (enrichment demo_world 0) = JString ''Summary generation failed''"
    by (simp add: demo_world_def demo_enrichment_def summarize_def)
  have s1: "summarize (enrichment demo_world 1) = JString ''two bullet points''"
    by (simp add: demo_world_def demo_enrichment_def summarize_def replied_def completion_body_def no_choices_def
        first_content_def)
  from enrichment_positional [OF h] s0 s1 h show ?thesis
    by (auto simp: less_Suc_eq numeral_2_eq_2)
qed

lemma summarize_thrown:
  "summarize (Rejected e) = JString ''Summary generation failed''"
  "\<not> ok a \<Longrightarrow> body_text a = Inl e \<Longrightarrow> summarize (Resolved a) = JString ''Summary generation failed''"
  "ok a \<Longrightarrow> body_json a = Inl e \<Longrightarrow> summarize (Resolved a) = JString ''Summary generation failed''"
  "ok a \<Longrightarrow> body_json a = Inr d \<Longrightarrow> member (Some d) ''choices'' = Inl e \<Longrightarrow>
     summarize (Resolved a) = JString ''Summary generation failed''"
  by (simp_all add: summarize_def)

lemma summarize_status:
  "\<not> ok a \<Longrightarrow> body_text a = Inr t \<Longrightarrow> summarize (Resolved a) = JString ''Summary failed due to API error''"
  by (simp add: summarize_def)

lemma summarize_invalid:
  "ok a \<Longrightarrow> body_json a = Inr d \<Longrightarrow> member (Some d) ''choices'' = Inr c \<Longrightarrow> no_choices c \<Longrightarrow>
     summarize (Resolved a) = JString ''Summary failed: No valid response''"
  by (simp add: summarize_def)

lemma analyse_thrown:
  "analysis (analyse p (Rejected e)) = JString ''Analysis failed due to server error''"
  "\<not> ok a \<Longrightarrow> body_text a = Inl e \<Longrightarrow>
     analysis (analyse p (Resolved a)) = JString ''Analysis failed due to server error''"
  "ok a \<Longrightarrow> body_json a = Inl e \<Longrightarrow>
     analysis (analyse p (Resolved a)) = JString ''Analysis failed due to server error''"
  "ok a \<Longrightarrow> body_json a = Inr d \<Longrightarrow> member (Some d) ''choices'' = Inl e \<Longrightarrow>
     analysis (analyse p (Resolved a)) = JString ''Analysis failed due to server error''"
  by (simp_all add: analyse_def)

lemma analyse_status:
  "\<not> ok a \<Longrightarrow> body_text a = Inr t \<Longrightarrow>
     analysis (analyse p (Resolved a)) = JString ''Analysis failed due to API error''"
  by (simp add: analyse_def)

lemma analyse_invalid:
  "ok a \<Longrightarrow> body_json a = Inr d \<Longrightarrow> member (Some d) ''choices'' = Inr c \<Longrightarrow> no_choices c \<Longrightarrow>
     analysis (analyse p (Resolved a)) = JString ''Analysis failed: No valid response from AI''"
  by (simp add: analyse_def)

text \<open>
  C4, as amended. In a batch whose calls all settle, the slot of a paper whose call fails
  holds a fixed placeholder chosen by the mode and by the kind of failure: an error
  thrown by the call or while its body is read gives
  \<^verbatim>\<open>Summary generation failed\<close> and \<^verbatim>\<open>Analysis failed due to server error\<close>; a
  non-success status gives \<^verbatim>\<open>Summary failed due to API error\<close> and
  \<^verbatim>\<open>Analysis failed due to API error\<close>; a body whose choices are missing, no array or
  empty gives \<^verbatim>\<open>Summary failed: No valid response\<close> and
  \<^verbatim>\<open>Analysis failed: No valid response from AI\<close>. The batch resolves all the same, with one
  slot for each paper.
\<close>

theorem failed_enrichment_placeholder:
  assumes "{..<length papers} \<subseteq> set (settled w)" and "i < length papers"
  shows "\<exists>ss as.
           enrich_summaries w papers = Some ss \<and> enrich_analyses w papers = Some as \<and>
           length ss = length papers \<and> length as = length papers \<and>
           pa_paper (as ! i) = papers ! i \<and>
           (\<forall>e. enrichment w i = Rejected e \<longrightarrow>
                ss ! i = JString ''Summary generation failed'' \<and>
                analysis (as ! i) = JString ''Analysis failed due to server error'') \<and>
           (\<forall>a e. enrichment w i = Resolved a \<and> \<not> ok a \<and> body_text a = Inl e \<longrightarrow>
                ss ! i = JString ''Summary generation failed'' \<and>
                analysis (as ! i) = JString ''Analysis failed due to server error'') \<and>
           (\<forall>a e. enrichment w i = Resolved a \<and> ok a \<and> body_json a = Inl e \<longrightarrow>
                ss ! i = JString ''Summary generation failed'' \<and>
                analysis (as ! i) = JString ''Analysis failed due to server error'') \<and>
           (\<forall>a d e. enrichment w i = Resolved a \<and> ok a \<and> body_json a = Inr d \<and>
                    member (Some d) ''choices'' = Inl e \<longrightarrow>
                ss ! i = JString ''Summary generation failed'' \<and>
                analysis (as ! i) = JString ''Analysis failed due to server error'') \<and>
           (\<forall>a t. enrichment w i = Resolved a \<and> \<not> ok a \<and> body_text a = Inr t \<longrightarrow>
                ss ! i = JString ''Summary failed due to API error'' \<and>
                analysis (as ! i) = JString ''Analysis failed due to API error'') \<and>
           (\<forall>a d c. enrichment w i = Resolved a \<and> ok a \<and> body_json a = Inr d \<and>
                    member (Some d) ''choices'' = Inr c \<and> no_choices c \<longrightarrow>
                ss ! i = JString ''Summary failed: No valid response'' \<and>
                analysis (as ! i) = JString ''Analysis failed: No valid response from AI'')"
proof -
  let ?ss = "map (\<lambda>(i, p). summarize (enrichment w i)) (enumerate 0 papers)"
  let ?as = "map (\<lambda>(i, p). analyse p (enrichment w i)) (enumerate 0 papers)"
  have si: "?ss ! i = summarize (enrichment w i)"
    using assms(2) by (simp add: nth_enumerate_eq)
  have ai: "?as ! i = analyse (papers ! i) (enrichment w i)"
    using assms(2) by (simp add: nth_enumerate_eq)
  show ?thesis
    apply (rule exI [of _ ?ss], rule exI [of _ ?as])
    apply (simp only: si ai enrich_summaries_settled [OF assms(1)] enrich_analyses_settled [OF assms(1)])
    apply (auto simp add: analyse_paper summarize_thrown summarize_status summarize_invalid
        analyse_thrown analyse_status analyse_invalid)
    done
qed

theorem failed_enrichment_placeholder_witness:
  "{..<length [paperA, paperB]} \<subseteq> set (settled demo_world) \<and> (0::nat) < length [paperA, paperB] \<and>
   (\<exists>ss as. enrich_summaries demo_world [paperA, paperB] = Some ss \<and>
            enrich_analyses demo_world [paperA, paperB] = Some as \<and>
            length ss = 2 \<and> length as = 2 \<and>
            ss ! 0 = JString ''Summary generation failed'' \<and>
            analysis (as ! 0) = JString ''Analysis failed due to server error'')"
proof -
  have h: "{..<length [paperA, paperB]} \<subseteq> set (settled demo_world)"
    by (auto simp: demo_world_def)
  have i: "(0::nat) < length [paperA, paperB]" by simp
  have r: "enrichment demo_world 0 = Rejected ''socket hang up''"
    by (simp add: demo_world_def demo_enrichment_def)
  from failed_enrichment_placeholder [OF h i] r h show ?thesis by auto
qed

text \<open>
  C4 as stated fails: a call answered with status 500 leaves
  \<^verbatim>\<open>Summary failed due to API error\<close> in its slot, not \<^verbatim>\<open>Summary generation failed\<close>, and
  \<^verbatim>\<open>Analysis failed due to API error\<close> in analysis mode.
\<close>

theorem failed_enrichment_placeholder_counterexample:
  "enrich_summaries api_error_world [paperA] = Some [JString ''Summary failed due to API error''] \<and>
   enrich_summaries api_error_world [paperA] \<noteq> Some [JString ''Summary generation failed''] \<and>
   enrich_analyses api_error_world [paperA] =
     Some [\<lparr>pa_paper = paperA, analysis = JString ''Analysis failed due to API error''\<rparr>]"
  by (simp add: enrich_summaries_def enrich_analyses_def Promise_all_def api_error_world_def
      all_failing_def http_error_def summarize_def analyse_def demo_world_def enumerate_eq_zip)

subsection \<open>search-papers\<close>

text \<open>
  C2. A search-papers request whose query can be put into the URL and whose search
  answers with a document without \<^verbatim>\<open>entry\<close> elements is answered with exactly
  \<^verbatim>\<open>{papers: [], summaries: [], consolidatedSummary: ''}\<close>; the search is the only call
  made, and no call to the completion endpoint is issued.
\<close>

theorem search_empty_result:
  assumes "destructure body ''query'' = Inr (Some q)" and "truthy (Some q)"
    and "ToString (number_text w) (Some q) = Inr queryText"
    and "encodeURIComponent w queryText = Inr u"
    and "arxiv w = Resolved a" and "ok a" and "body_text a = Inr xmlData"
    and "xml_entries w xmlData = Inr []"
  shows "searchPapers w body =
           (Json 200 (JObject [(''papers'', JArray []), (''summaries'', JArray []),
                               (''consolidatedSummary'', JString '''')]),
            [Search u 6]) \<and>
         filter is_completion (snd (searchPapers w body)) = []"
  using assms
  by (simp add: searchPapers_def search_component_def search_fetched_def is_completion_def)

theorem search_empty_result_witness:
  "destructure (Some (JObject [(''query'', JString ''q'')])) ''query'' = Inr (Some (JString ''q'')) \<and>
   truthy (Some (JString ''q'')) \<and>
   ToString (number_text demo_world) (Some (JString ''q'')) = Inr ''q'' \<and>
   encodeURIComponent demo_world ''q'' = Inr ''q'' \<and>
   searchPapers demo_world (Some (JObject [(''query'', JString ''q'')])) =
     (Json 200 (JObject [(''papers'', JArray []), (''summaries'', JArray []),
                         (''consolidatedSummary'', JString '''')]),
      [Search ''q'' 6]) \<and>
   filter is_completion (snd (searchPapers demo_world (Some (JObject [(''query'', JString ''q'')])))) = []"
proof -
  have d: "destructure (Some (JObject [(''query'', JString ''q'')])) ''query'' = Inr (Some (JString ''q''))"
    by (simp add: destructure_def)
  have t: "truthy (Some (JString ''q''))" by simp
  have s: "ToString (number_text demo_world) (Some (JString ''q'')) = Inr ''q''" by simp
  have e: "encodeURIComponent demo_world ''q'' = Inr ''q''"
    by (simp add: demo_world_def demo_encode_def)
  have a: "arxiv demo_world = Resolved \<lparr>ok = True, status = 200, statusText = ''OK'',
             body_text = Inr ''<feed/>'', body_json = Inl ''Unexpected token < in JSON''\<rparr>"
    by (simp add: demo_world_def empty_feed_def)
  have x: "xml_entries demo_world ''<feed/>'' = Inr []"
    by (simp add: demo_world_def demo_xml_entries_def)
  from search_empty_result [OF d t s e a _ _ x] d t s e show ?thesis
    by (simp add: is_completion_def)
qed

subsection \<open>Validation of the query\<close>

text \<open>
  C3. A request to search-papers or to generate-report whose body has no \<^verbatim>\<open>query\<close>
  field is answered with status 400 and \<^verbatim>\<open>{error: 'Query is required'}\<close>, and the handler
  issues no outbound call: none to the search API, none to the completion API, none to
  the store.
\<close>

theorem missing_query_rejected:
  assumes "map_of kvs ''query'' = None"
  shows "searchPapers w (Some (JObject kvs)) = (Json 400 (error_body ''Query is required''), []) \<and>
         generate_report w table user (Some (JObject kvs)) =
           (Json 400 (error_body ''Query is required''), [], table)"
  using assms by (simp add: searchPapers_def generate_report_def destructure_def)

theorem missing_query_rejected_witness:
  "map_of [(''topic'', JString ''llm'')] ''query'' = None \<and>
   searchPapers demo_world (Some (JObject [(''topic'', JString ''llm'')])) =
     (Json 400 (JObject [(''error'', JString ''Query is required'')]), []) \<and>
   generate_report demo_world [] (Some demo_user) (Some (JObject [(''topic'', JString ''llm'')])) =
     (Json 400 (JObject [(''error'', JString ''Query is required'')]), [], [])"
proof -
  have h: "map_of [(''topic'', JString ''llm'')] ''query'' = None" by simp
  from missing_query_rejected [OF h, of demo_world "[]" "Some demo_user"] h show ?thesis
    by (simp add: error_body_def)
qed

subsection \<open>generate-report\<close>

lemma enrich_analyses_Nil: "enrich_analyses w [] = Some []"
  unfolding enrich_analyses_def by (simp add: Promise_all_settled)

lemma save_report_success:
  assumes "save_report w table user q finalReport paperAnalyses = (Json 200 resp, cs, table')"
  shows "\<exists>stored uid. table' = table @ [stored] \<and>
           cs = [Insert [(''user_id'', uid), (''title'', q), (''content'', finalReport)]] \<and>
           resp = JObject [(''report'', finalReport),
                           (''papers'', JArray (map analysis_json paperAnalyses)),
                           (''savedReport'', JObject stored)] \<and>
           map_of stored ''content'' = Some finalReport"
  using assms
  by (auto simp: save_report_def db_insert_def Let_def
      split: if_splits option.splits sum.splits store_behaviour.splits)

lemma filter_insert_requests: "filter is_insert (map (\<lambda>p. Complete (f p)) ps) = []"
  by (induction ps) (auto simp: is_insert_def)

lemma report_papers_searched: "report_papers w q = (ps, searched) \<Longrightarrow> filter is_insert searched = []"
  by (auto simp: report_papers_def is_insert_def split: sum.splits fetched.splits if_splits)

lemma report_enriched_success:
  assumes "report_enriched w table user q searched papers = (Json 200 resp, calls, table')"
    and "filter is_insert searched = []"
  shows "\<exists>stored finalReport. table' = table @ [stored] \<and> length (filter is_insert calls) = 1 \<and>
           opt_member (Some resp) ''report'' = Some finalReport \<and>
           opt_member (Some resp) ''savedReport'' = Some (JObject stored) \<and>
           map_of stored ''content'' = Some finalReport"
proof -
  from assms(1) obtain pas rq fr cs where
    sv: "save_report w table user q fr pas = (Json 200 resp, cs, table')" and
    calls: "calls = (searched @ map (\<lambda>p. Complete (analysis_request p)) papers) @
                    [Complete rq] @ cs"
    by (auto simp: report_enriched_def Let_def split: option.splits sum.splits prod.splits)
  from save_report_success [OF sv] obtain stored uid where
    st: "table' = table @ [stored]"
      "cs = [Insert [(''user_id'', uid), (''title'', q), (''content'', fr)]]"
      "resp = JObject [(''report'', fr), (''papers'', JArray (map analysis_json pas)),
                       (''savedReport'', JObject stored)]"
      "map_of stored ''content'' = Some fr"
    by blast
  have "length (filter is_insert calls) = 1"
    by (simp add: calls st(2) filter_insert_requests assms(2)) (simp add: is_insert_def)
  with st show ?thesis by simp
qed

text \<open>
  C5. A generate-report request that succeeds (status 200) persists exactly one record:
  one insert is issued and the table grows by one row; the \<^verbatim>\<open>savedReport\<close> of the
  response is that row, and its \<^verbatim>\<open>content\<close> is the \<^verbatim>\<open>report\<close> of the same response.
\<close>

theorem report_persisted_once:
  assumes "generate_report w table user body = (Json 200 resp, calls, table')"
  shows "\<exists>stored finalReport. table' = table @ [stored] \<and> length (filter is_insert calls) = 1 \<and>
           opt_member (Some resp) ''report'' = Some finalReport \<and>
           opt_member (Some resp) ''savedReport'' = Some (JObject stored) \<and>
           map_of stored ''content'' = Some finalReport"
proof -
  from assms obtain q papers searched where
    "report_papers w q = (Some papers, searched)"
    "report_enriched w table user q searched papers = (Json 200 resp, calls, table')"
    by (auto simp: generate_report_def split: sum.splits option.splits if_splits prod.splits)
  then show ?thesis
    by (intro report_enriched_success report_papers_searched)
qed

theorem report_persisted_once_witness:
  "generate_report demo_world [] (Some demo_user) (Some (JObject [(''query'', JString ''q'')])) =
     (Json 200 (JObject [(''report'', JString ''# Report''), (''papers'', JArray []),
                         (''savedReport'', JObject [(''user_id'', JString ''u-1''), (''title'', JString ''q''),
                                                    (''content'', JString ''# Report''), (''id'', JNum 1)])]),
      [Search ''q'' 5,
       Complete \<lparr>message_content = ReportPrompt ''q'' ''11/3/2026'' [], temperature = 3 / 10,
                 max_tokens = 2000\<rparr>,
       Insert [(''user_id'', JString ''u-1''), (''title'', JString ''q''), (''content'', JString ''# Report'')]],
      [[(''user_id'', JString ''u-1''), (''title'', JString ''q''), (''content'', JString ''# Report''),
        (''id'', JNum 1)]]) \<and>
   (\<exists>stored finalReport.
      [[(''user_id'', JString ''u-1''), (''title'', JString ''q''), (''content'', JString ''# Report''),
        (''id'', JNum 1)]] = [] @ [stored] \<and>
      map_of stored ''content'' = Some finalReport)"
proof -
  have run: "generate_report demo_world [] (Some demo_user) (Some (JObject [(''query'', JString ''q'')])) =
     (Json 200 (JObject [(''report'', JString ''# Report''), (''papers'', JArray []),
                         (''savedReport'', JObject [(''user_id'', JString ''u-1''), (''title'', JString ''q''),
                                                    (''content'', JString ''# Report''), (''id'', JNum 1)])]),
      [Search ''q'' 5,
       Complete \<lparr>message_content = ReportPrompt ''q'' ''11/3/2026'' [], temperature = 3 / 10,
                 max_tokens = 2000\<rparr>,
       Insert [(''user_id'', JString ''u-1''), (''title'', JString ''q''), (''content'', JString ''# Report'')]],
      [[(''user_id'', JString ''u-1''), (''title'', JString ''q''), (''content'', JString ''# Report''),
        (''id'', JNum 1)]])"
    by (simp add: generate_report_def destructure_def report_papers_def search_component_def
        report_enriched_def report_request_def enrich_analyses_Nil final_report_def no_choices_def
        first_content_def save_report_def db_insert_def demo_world_def demo_encode_def
        demo_xml_entries_def empty_feed_def replied_def completion_body_def demo_user_def)
  from report_persisted_once [OF run] run show ?thesis by auto
qed

text \<open>
  C10. A generate-report request whose query can be put into the URL and whose search
  answers with a document without \<^verbatim>\<open>entry\<close> elements is not cut short: after the
  search the handler issues the report completion call, its prompt built from the text of
  the query, the date and the empty dataset, with temperature 0.3 and at most 2000
  tokens; where that call gives a report, the user has an id and the store accepts the
  row, the report is persisted and returned with an empty list of papers.
\<close>

theorem report_no_short_circuit:
  assumes "destructure body ''query'' = Inr (Some q)" and "truthy (Some q)"
    and "ToString (number_text w) (Some q) = Inr queryText"
    and "encodeURIComponent w queryText = Inr u"
    and "arxiv w = Resolved a" and "ok a" and "body_text a = Inr xmlData"
    and "xml_entries w xmlData = Inr []"
  shows "\<exists>r rest table'.
           generate_report w table user body =
             (r, Search u 5 #
                 Complete \<lparr>message_content = ReportPrompt queryText (today w) [],
                           temperature = 3 / 10, max_tokens = 2000\<rparr> # rest, table') \<and>
           (\<forall>finalReport uid generated.
              final_report (synthesis w) = Some finalReport \<and> truthy user \<and>
              opt_member user ''id'' = Some uid \<and> truthy (Some uid) \<and>
              store w = Stores generated \<longrightarrow>
              (\<exists>stored. r = Json 200 (JObject [(''report'', finalReport), (''papers'', JArray []),
                                               (''savedReport'', JObject stored)]) \<and>
                        rest = [Insert [(''user_id'', uid), (''title'', q), (''content'', finalReport)]] \<and>
                        table' = table @ [stored]))"
proof -
  let ?rq = "\<lparr>message_content = ReportPrompt queryText (today w) [], temperature = 3 / 10,
              max_tokens = 2000\<rparr>"
  have papers: "report_papers w q = (Some [], [Search u 5])"
    using assms by (simp add: report_papers_def search_component_def)
  have rq: "report_request w q [] = Inr ?rq"
    using assms(3) by (simp add: report_request_def)
  have gen: "generate_report w table user body = report_enriched w table user q [Search u 5] []"
    using assms papers by (simp add: generate_report_def)
  show ?thesis
  proof (cases "final_report (synthesis w)")
    case None
    then show ?thesis
      by (simp add: gen report_enriched_def enrich_analyses_Nil rq)
  next
    case (Some fr)
    obtain r cs t' where sv: "save_report w table user q fr [] = (r, cs, t')"
      by (cases "save_report w table user q fr []") auto
    have run: "generate_report w table user body = (r, Search u 5 # Complete ?rq # cs, t')"
      by (simp add: gen report_enriched_def enrich_analyses_Nil rq Some sv)
    have "\<exists>stored. r = Json 200 (JObject [(''report'', fr), (''papers'', JArray []),
                                          (''savedReport'', JObject stored)]) \<and>
                   cs = [Insert [(''user_id'', uid), (''title'', q), (''content'', fr)]] \<and>
                   t' = table @ [stored]"
      if "truthy user" "opt_member user ''id'' = Some uid" "truthy (Some uid)"
         "store w = Stores generated" for uid generated
      using sv that by (auto simp: save_report_def db_insert_def Let_def)
    with run Some show ?thesis by auto
  qed
qed

theorem report_no_short_circuit_witness:
  "destructure (Some (JObject [(''query'', JString ''q'')])) ''query'' = Inr (Some (JString ''q'')) \<and>
   truthy (Some (JString ''q'')) \<and>
   ToString (number_text demo_world) (Some (JString ''q'')) = Inr ''q'' \<and>
   encodeURIComponent demo_world ''q'' = Inr ''q'' \<and>
   (\<exists>r rest table'.
      generate_report demo_world [] (Some demo_user) (Some (JObject [(''query'', JString ''q'')])) =
        (r, Search ''q'' 5 #
            Complete \<lparr>message_content = ReportPrompt ''q'' (today demo_world) [],
                      temperature = 3 / 10, max_tokens = 2000\<rparr> # rest, table') \<and>
      (\<exists>stored. r = Json 200 (JObject [(''report'', JString ''# Report''), (''papers'', JArray []),
                                       (''savedReport'', JObject stored)]) \<and>
                rest = [Insert [(''user_id'', JString ''u-1''), (''title'', JString ''q''),
                                (''content'', JString ''# Report'')]] \<and>
                table' = [] @ [stored]))"
proof -
  have d: "destructure (Some (JObject [(''query'', JString ''q'')])) ''query'' = Inr (Some (JString ''q''))"
    by (simp add: destructure_def)
  have t: "truthy (Some (JString ''q''))" by simp
  have s: "ToString (number_text demo_world) (Some (JString ''q'')) = Inr ''q''" by simp
  have e: "encodeURIComponent demo_world ''q'' = Inr ''q''"
    by (simp add: demo_world_def demo_encode_def)
  have a: "arxiv demo_world = Resolved \<lparr>ok = True, status = 200, statusText = ''OK'',
             body_text = Inr ''<feed/>'', body_json = Inl ''Unexpected token < in JSON''\<rparr>"
    by (simp add: demo_world_def empty_feed_def)
  have x: "xml_entries demo_world ''<feed/>'' = Inr []"
    by (simp add: demo_world_def demo_xml_entries_def)
  have f: "final_report (synthesis demo_world) = Some (JString ''# Report'')"
    by (simp add: final_report_def no_choices_def first_content_def demo_world_def replied_def
        completion_body_def)
  have usr: "truthy (Some demo_user)" "opt_member (Some demo_user) ''id'' = Some (JString ''u-1'')"
    "truthy (Some (JString ''u-1''))" "store demo_world = Stores [(''id'', JNum 1)]"
    by (simp_all add: demo_user_def demo_world_def)
  from report_no_short_circuit [OF d t s e a _ _ x, of "[]" "Some demo_user"]
  obtain r rest table' where
    run: "generate_report demo_world [] (Some demo_user) (Some (JObject [(''query'', JString ''q'')])) =
            (r, Search ''q'' 5 #
                Complete \<lparr>message_content = ReportPrompt ''q'' (today demo_world) [],
                          temperature = 3 / 10, max_tokens = 2000\<rparr> # rest, table')"
    and ok: "\<forall>finalReport uid generated.
              final_report (synthesis demo_world) = Some finalReport \<and> truthy (Some demo_user) \<and>
              opt_member (Some demo_user) ''id'' = Some uid \<and> truthy (Some uid) \<and>
              store demo_world = Stores generated \<longrightarrow>
              (\<exists>stored. r = Json 200 (JObject [(''report'', finalReport), (''papers'', JArray []),
                                               (''savedReport'', JObject stored)]) \<and>
                        rest = [Insert [(''user_id'', uid), (''title'', JString ''q''), (''content'', finalReport)]] \<and>
                        table' = [] @ [stored])"
    by auto
  from ok f usr have "\<exists>stored. r = Json 200 (JObject [(''report'', JString ''# Report''), (''papers'', JArray []),
                                               (''savedReport'', JObject stored)]) \<and>
                        rest = [Insert [(''user_id'', JString ''u-1''), (''title'', JString ''q''),
                                        (''content'', JString ''# Report'')]] \<and>
                        table' = [] @ [stored]"
    by blast
  with run d t s e show ?thesis by blast
qed

subsection \<open>suggest-prompt\<close>

lemma suggest_respond_status: "suggest_respond w initialQuery c = (r, cs) \<Longrightarrow> r \<noteq> Json 400 b"
  by (auto simp: suggest_respond_def split: sum.splits prod.splits)

text \<open>
  C9. A suggest-prompt request whose body has no \<^verbatim>\<open>initialQuery\<close> field is not
  rejected with status 400: the first thing the handler does is to issue the completion
  call, with the suggestion prompt in which \<^verbatim>\<open>undefined\<close> stands for the query, with
  temperature 0.3 and at most 800 tokens.
\<close>

theorem suggest_prompt_unvalidated:
  assumes "map_of kvs ''initialQuery'' = None"
  shows "\<exists>r rest. suggest_prompt w (Some (JObject kvs)) =
                    (r, Complete \<lparr>message_content = SuggestPrompt ''undefined'',
                                  temperature = 3 / 10, max_tokens = 800\<rparr> # rest) \<and>
                  (\<forall>b. r \<noteq> Json 400 b)"
  using assms
  by (auto simp: suggest_prompt_def suggest_request_def destructure_def Let_def
      split: sum.split prod.split dest: suggest_respond_status)

theorem suggest_prompt_unvalidated_witness:
  "map_of [] ''initialQuery'' = (None :: json option) \<and>
   (\<exists>r rest. suggest_prompt demo_world (Some (JObject [])) =
                (r, Complete \<lparr>message_content = SuggestPrompt ''undefined'',
                              temperature = 3 / 10, max_tokens = 800\<rparr> # rest) \<and>
              (\<forall>b. r \<noteq> Json 400 b))"
proof -
  have h: "map_of [] ''initialQuery'' = (None :: json option)" by simp
  from suggest_prompt_unvalidated [OF h, of demo_world] h show ?thesis by simp
qed

lemma tags_of_failed_answer: "tag_call_fails t \<Longrightarrow> tags_of_answer t = []"
  by (auto simp: tag_call_fails_def tags_of_answer_def first_content_def
      split: fetched.splits sum.splits if_splits option.splits json.splits)

lemma map_of_researchTags:
  "map_of (AList.update ''researchTags'' v kvs) ''researchTags'' = Some v"
  "k \<noteq> ''researchTags'' \<Longrightarrow> map_of (AList.update ''researchTags'' v kvs) k = map_of kvs k"
  by (simp_all add: AList.update_conv')

text \<open>The handler of a world with another answer to the tag call, unfolded up to the tag call.\<close>

lemma suggest_respond_tags:
  "suggest_respond (w\<lparr>tag_answer := t\<rparr>) initialQuery c =
     (case parse_suggestions w c of
        Inl e \<Rightarrow> (Forward e, [])
      | Inr s \<Rightarrow>
          (case ToString (number_text w) initialQuery of
             Inl e \<Rightarrow>
               (case assign_researchTags (number_text w) s (JArray []) of
                  Inl e \<Rightarrow> (Forward e, [])
                | Inr sent \<Rightarrow> (Json 200 sent, []))
           | Inr queryText \<Rightarrow>
               (case assign_researchTags (number_text w) s (JArray (map JString (tags_of_answer t))) of
                  Inl e \<Rightarrow> (Forward e, [Complete (tag_request queryText)])
                | Inr sent \<Rightarrow> (Json 200 sent, [Complete (tag_request queryText)]))))"
  by (simp add: suggest_respond_def parse_suggestions_def getResearchTags_def split: sum.splits)

lemma suggest_prompt_tags:
  "suggest_prompt (w\<lparr>tag_answer := t\<rparr>) body =
     (case destructure body ''initialQuery'' of
        Inl e \<Rightarrow> (Forward e, [])
      | Inr initialQuery \<Rightarrow>
          (case ToString (number_text w) initialQuery of
             Inl e \<Rightarrow> (Forward e, [])
           | Inr query \<Rightarrow>
               (case suggest_content (suggestion w) of
                  Inl e \<Rightarrow> (Forward e, [Complete (suggest_request query)])
                | Inr c \<Rightarrow>
                    (case suggest_respond (w\<lparr>tag_answer := t\<rparr>) initialQuery c of
                       (r, cs) \<Rightarrow> (r, Complete (suggest_request query) # cs)))))"
  by (simp add: suggest_prompt_def Let_def split: sum.splits)

lemma suggest_respond_forward:
  assumes "suggest_respond (w\<lparr>tag_answer := t\<rparr>) initialQuery c = (Forward e, cs)"
  shows "suggest_respond (w\<lparr>tag_answer := t'\<rparr>) initialQuery c = (Forward e, cs)"
proof (cases "parse_suggestions w c")
  case (Inl x)
  then show ?thesis using assms by (simp add: suggest_respond_tags)
next
  case (Inr s)
  then show ?thesis using assms
    by (cases s; cases "ToString (number_text w) initialQuery") (auto simp: suggest_respond_tags)
qed

lemma suggest_prompt_object:
  assumes "destructure body ''initialQuery'' = Inr initialQuery"
    and "ToString (number_text w) initialQuery = Inr query"
    and "suggest_content (suggestion w) = Inr c"
    and "parse_suggestions w c = Inr (JObject kvs)"
  shows "suggest_prompt (w\<lparr>tag_answer := t\<rparr>) body =
           (Json 200 (JObject (AList.update ''researchTags'' (JArray (map JString (tags_of_answer t))) kvs)),
            [Complete (suggest_request query), Complete (tag_request query)])"
  using assms by (simp add: suggest_prompt_tags suggest_respond_tags)

text \<open>
  C7, as amended. When the tag call of a suggest-prompt request fails (thrown error,
  non-success status or invalid body), the list of tags is empty, and the failure never
  makes the request fail: a request that fails with the failed tag call fails in the same
  way whatever the tag call answers. Where the query can be put into the prompts and the
  model's reply parses to an object, the request is answered with status 200 after the
  two completion calls, \<^verbatim>\<open>researchTags\<close> is the empty sequence, and every other field of
  the response is the same as in the response to the same request with any other answer
  to the tag call, which is the field of the reply.
\<close>

theorem tag_failure_degrades:
  assumes "tag_call_fails t"
  shows "tags_of_answer t = [] \<and>
         (\<forall>e. fst (suggest_prompt (w\<lparr>tag_answer := t\<rparr>) body) = Forward e \<longrightarrow>
              fst (suggest_prompt (w\<lparr>tag_answer := t'\<rparr>) body) = Forward e) \<and>
         (\<forall>initialQuery query c kvs.
            destructure body ''initialQuery'' = Inr initialQuery \<and>
            ToString (number_text w) initialQuery = Inr query \<and>
            suggest_content (suggestion w) = Inr c \<and>
            parse_suggestions w c = Inr (JObject kvs) \<longrightarrow>
            (\<exists>sent sent'.
               suggest_prompt (w\<lparr>tag_answer := t\<rparr>) body =
                 (Json 200 (JObject sent),
                  [Complete \<lparr>message_content = SuggestPrompt query, temperature = 3 / 10, max_tokens = 800\<rparr>,
                   Complete \<lparr>message_content = TagPrompt query, temperature = 2 / 10, max_tokens = 100\<rparr>]) \<and>
               map_of sent ''researchTags'' = Some (JArray []) \<and>
               fst (suggest_prompt (w\<lparr>tag_answer := t'\<rparr>) body) = Json 200 (JObject sent') \<and>
               (\<forall>k. k \<noteq> ''researchTags'' \<longrightarrow>
                    map_of sent k = map_of sent' k \<and> map_of sent k = map_of kvs k)))"
proof -
  have tags: "tags_of_answer t = []" using assms by (rule tags_of_failed_answer)
  have fwd: "fst (suggest_prompt (w\<lparr>tag_answer := t'\<rparr>) body) = Forward e"
    if "fst (suggest_prompt (w\<lparr>tag_answer := t\<rparr>) body) = Forward e" for e
    using that unfolding suggest_prompt_tags
    by (auto split: sum.splits prod.splits dest: suggest_respond_forward [where t' = t'])
  have obj: "\<exists>sent sent'.
               suggest_prompt (w\<lparr>tag_answer := t\<rparr>) body =
                 (Json 200 (JObject sent),
                  [Complete \<lparr>message_content = SuggestPrompt query, temperature = 3 / 10, max_tokens = 800\<rparr>,
                   Complete \<lparr>message_content = TagPrompt query, temperature = 2 / 10, max_tokens = 100\<rparr>]) \<and>
               map_of sent ''researchTags'' = Some (JArray []) \<and>
               fst (suggest_prompt (w\<lparr>tag_answer := t'\<rparr>) body) = Json 200 (JObject sent') \<and>
               (\<forall>k. k \<noteq> ''researchTags'' \<longrightarrow>
                    map_of sent k = map_of sent' k \<and> map_of sent k = map_of kvs k)"
    if "destructure body ''initialQuery'' = Inr initialQuery"
      "ToString (number_text w) initialQuery = Inr query"
      "suggest_content (suggestion w) = Inr c"
      "parse_suggestions w c = Inr (JObject kvs)" for initialQuery query c kvs
    using suggest_prompt_object [OF that, of t] suggest_prompt_object [OF that, of t']
    by (simp add: tags map_of_researchTags suggest_request_def tag_request_def)
  from tags fwd obj show ?thesis by blast
qed

theorem tag_failure_degrades_witness:
  "tag_call_fails http_error \<and> tags_of_answer http_error = [] \<and>
   destructure (Some (JObject [(''initialQuery'', JString ''q'')])) ''initialQuery'' =
     Inr (Some (JString ''q'')) \<and>
   ToString (number_text demo_world) (Some (JString ''q'')) = Inr ''q'' \<and>
   suggest_content (suggestion demo_world) = Inr (Some (JString reply_text)) \<and>
   parse_suggestions demo_world (Some (JString reply_text)) =
     Inr (JObject [(''refinedQuery'', JString ''evaluation of language models'')]) \<and>
   (\<exists>sent sent'.
      suggest_prompt (demo_world\<lparr>tag_answer := http_error\<rparr>)
          (Some (JObject [(''initialQuery'', JString ''q'')])) =
        (Json 200 (JObject sent),
         [Complete \<lparr>message_content = SuggestPrompt ''q'', temperature = 3 / 10, max_tokens = 800\<rparr>,
          Complete \<lparr>message_content = TagPrompt ''q'', temperature = 2 / 10, max_tokens = 100\<rparr>]) \<and>
      map_of sent ''researchTags'' = Some (JArray []) \<and>
      fst (suggest_prompt (demo_world\<lparr>tag_answer := replied (JString ''Survey, Benchmark'')\<rparr>)
             (Some (JObject [(''initialQuery'', JString ''q'')]))) = Json 200 (JObject sent') \<and>
      map_of sent ''refinedQuery'' = map_of sent' ''refinedQuery'' \<and>
      map_of sent ''refinedQuery'' = Some (JString ''evaluation of language models''))"
proof -
  have f: "tag_call_fails http_error" by (simp add: tag_call_fails_def http_error_def)
  have d: "destructure (Some (JObject [(''initialQuery'', JString ''q'')])) ''initialQuery'' =
             Inr (Some (JString ''q''))"
    by (simp add: destructure_def)
  have s: "ToString (number_text demo_world) (Some (JString ''q'')) = Inr ''q''" by simp
  have c: "suggest_content (suggestion demo_world) = Inr (Some (JString reply_text))"
    by (simp add: suggest_content_def demo_world_def replied_def completion_body_def no_choices_def
        first_content_def)
  have p: "parse_suggestions demo_world (Some (JString reply_text)) =
             Inr (JObject [(''refinedQuery'', JString ''evaluation of language models'')])"
    by (simp add: parse_suggestions_def demo_world_def demo_parse_def reply_object_def reply_text_def)
  from tag_failure_degrades [OF f, of demo_world "Some (JObject [(''initialQuery'', JString ''q'')])"
      "replied (JString ''Survey, Benchmark'')"] d s c p
  obtain sent sent' where
    run: "suggest_prompt (demo_world\<lparr>tag_answer := http_error\<rparr>)
          (Some (JObject [(''initialQuery'', JString ''q'')])) =
        (Json 200 (JObject sent),
         [Complete \<lparr>message_content = SuggestPrompt ''q'', temperature = 3 / 10, max_tokens = 800\<rparr>,
          Complete \<lparr>message_content = TagPrompt ''q'', temperature = 2 / 10, max_tokens = 100\<rparr>])"
    and tags: "map_of sent ''researchTags'' = Some (JArray [])"
    and other: "fst (suggest_prompt (demo_world\<lparr>tag_answer := replied (JString ''Survey, Benchmark'')\<rparr>)
             (Some (JObject [(''initialQuery'', JString ''q'')]))) = Json 200 (JObject sent')"
    and same: "\<forall>k. k \<noteq> ''researchTags'' \<longrightarrow>
          map_of sent k = map_of sent' k \<and>
          map_of sent k = map_of [(''refinedQuery'', JString ''evaluation of language models'')] k"
    by blast
  have neq: "''refinedQuery'' \<noteq> ''researchTags''" by simp
  from same [rule_format, OF neq] have
    field: "map_of sent ''refinedQuery'' = map_of sent' ''refinedQuery'' \<and>
     map_of sent ''refinedQuery'' = Some (JString ''evaluation of language models'')"
    by auto
  have empty: "tags_of_answer http_error = []"
    using tag_failure_degrades [OF f] by blast
  from run tags other field empty f d s c p show ?thesis by blast
qed

text \<open>
  C7 as stated fails: the tag call may fail in a request that fails itself, or whose
  response has no \<^verbatim>\<open>researchTags\<close>. A reply \<^verbatim>\<open>null\<close> makes the assignment of the tags
  throw, and the error goes to \<^verbatim>\<open>next\<close>; a reply \<^verbatim>\<open>[]\<close> is sent back as the empty
  array, which has no fields.
\<close>

theorem tag_failure_degrades_counterexample:
  "tag_call_fails (tag_answer null_world) \<and>
   suggest_prompt null_world (Some (JObject [(''initialQuery'', JString ''q'')])) =
     (Forward (''Cannot set properties of null (setting '' @ [CHR 0x27] @ ''researchTags'' @
               [CHR 0x27] @ '')''),
      [Complete (suggest_request ''q''), Complete (tag_request ''q'')]) \<and>
   tag_call_fails (tag_answer array_world) \<and>
   suggest_prompt array_world (Some (JObject [(''initialQuery'', JString ''q'')])) =
     (Json 200 (JArray []), [Complete (suggest_request ''q''), Complete (tag_request ''q'')]) \<and>
   opt_member (Some (JArray [])) ''researchTags'' = None"
  by (simp add: suggest_prompt_def Let_def destructure_def suggest_content_def suggest_respond_def
      parse_suggestions_def getResearchTags_def tags_of_answer_def tag_call_fails_def
      no_choices_def first_content_def null_world_def array_world_def demo_world_def demo_parse_def
      reply_text_def http_error_def replied_def completion_body_def)

text \<open>
  C6, as amended. Where the query can be put into the prompt and the model's reply parses
  to an object, the response is that object with \<^verbatim>\<open>researchTags\<close> set to the list of
  tags: \<^verbatim>\<open>researchTags\<close> is always present, and every other field is in the response
  exactly as the reply has it, absent where the reply has none.
\<close>

theorem suggestion_fields_from_reply:
  assumes "destructure body ''initialQuery'' = Inr initialQuery"
    and "ToString (number_text w) initialQuery = Inr query"
    and "suggest_content (suggestion w) = Inr c"
    and "parse_suggestions w c = Inr (JObject kvs)"
  shows "\<exists>sent. fst (suggest_prompt w body) = Json 200 (JObject sent) \<and>
           map_of sent ''researchTags'' = Some (JArray (map JString (tags_of_answer (tag_answer w)))) \<and>
           (\<forall>k. k \<noteq> ''researchTags'' \<longrightarrow> map_of sent k = map_of kvs k)"
  using assms
  by (simp add: suggest_prompt_def Let_def suggest_respond_def getResearchTags_def
      map_of_researchTags)

theorem suggestion_fields_from_reply_witness:
  "destructure (Some (JObject [(''initialQuery'', JString ''q'')])) ''initialQuery'' = Inr (Some (JString ''q'')) \<and>
   ToString (number_text demo_world) (Some (JString ''q'')) = Inr ''q'' \<and>
   suggest_content (suggestion demo_world) = Inr (Some (JString reply_text)) \<and>
   parse_suggestions demo_world (Some (JString reply_text)) =
     Inr (JObject [(''refinedQuery'', JString ''evaluation of language models'')]) \<and>
   (\<exists>sent. fst (suggest_prompt demo_world (Some (JObject [(''initialQuery'', JString ''q'')]))) =
             Json 200 (JObject sent) \<and>
           map_of sent ''researchTags'' = Some (JArray []) \<and>
           map_of sent ''refinedQuery'' = Some (JString ''evaluation of language models'') \<and>
           map_of sent ''relatedConcepts'' = None)"
proof -
  have d: "destructure (Some (JObject [(''initialQuery'', JString ''q'')])) ''initialQuery'' =
             Inr (Some (JString ''q''))"
    by (simp add: destructure_def)
  have s: "ToString (number_text demo_world) (Some (JString ''q'')) = Inr ''q''" by simp
  have c: "suggest_content (suggestion demo_world) = Inr (Some (JString reply_text))"
    by (simp add: suggest_content_def demo_world_def replied_def completion_body_def no_choices_def
        first_content_def)
  have p: "parse_suggestions demo_world (Some (JString reply_text)) =
             Inr (JObject [(''refinedQuery'', JString ''evaluation of language models'')])"
    by (simp add: parse_suggestions_def demo_world_def demo_parse_def reply_object_def reply_text_def)
  have t: "tags_of_answer (tag_answer demo_world) = []"
    by (simp add: tags_of_answer_def demo_world_def http_error_def)
  from suggestion_fields_from_reply [OF d s c p] d s c p t show ?thesis by auto
qed

text \<open>
  C6 as stated fails: for the reply \<^verbatim>\<open>{}\<close> the response is
  \<^verbatim>\<open>{researchTags: []}\<close>; \<^verbatim>\<open>refinedQuery\<close>, \<^verbatim>\<open>suggestedElements\<close>,
  \<^verbatim>\<open>questionVariations\<close> and \<^verbatim>\<open>relatedConcepts\<close> are absent, no default stands in.
\<close>

theorem suggestion_fields_from_reply_counterexample:
  "suggest_prompt bare_world (Some (JObject [(''initialQuery'', JString ''q'')])) =
     (Json 200 (JObject [(''researchTags'', JArray [])]),
      [Complete (suggest_request ''q''), Complete (tag_request ''q'')]) \<and>
   opt_member (Some (JObject [(''researchTags'', JArray [])])) ''refinedQuery'' = None \<and>
   opt_member (Some (JObject [(''researchTags'', JArray [])])) ''suggestedElements'' = None \<and>
   opt_member (Some (JObject [(''researchTags'', JArray [])])) ''questionVariations'' = None \<and>
   opt_member (Some (JObject [(''researchTags'', JArray [])])) ''relatedConcepts'' = None"
  by (simp add: suggest_prompt_def Let_def destructure_def suggest_content_def suggest_respond_def
      parse_suggestions_def getResearchTags_def tags_of_answer_def no_choices_def first_content_def
      bare_world_def demo_world_def http_error_def replied_def completion_body_def)

subsection \<open>Queries that are no text\<close>

text \<open>
  A query that cannot be turned into text, such as \<^verbatim>\<open>{"toString": 1}\<close>, is answered
  before any call is made: with status 500 by search-papers and generate-report, by
  \<^verbatim>\<open>next(error)\<close> in suggest-prompt.
\<close>

lemma unconvertible_query_answered:
  "searchPapers w (Some (JObject [(''query'', JObject [(''toString'', JNum 1)])])) =
     (Json 500 (error_body ''Cannot convert object to primitive value''), [])"
  "generate_report w table user (Some (JObject [(''query'', JObject [(''toString'', JNum 1)])])) =
     (Json 500 (error_body ''Failed to fetch papers from arXiv''), [], table)"
  "suggest_prompt w (Some (JObject [(''initialQuery'', JObject [(''toString'', JNum 1)])])) =
     (Forward ''Cannot convert object to primitive value'', [])"
  by (simp_all add: searchPapers_def generate_report_def suggest_prompt_def destructure_def
      search_component_def report_papers_def)

subsection \<open>Authentication\<close>

text \<open>
  Whatever the header, a request whose token the identity service does not validate is
  answered with status 401 by either middleware, and nothing but the identity service has
  been called.
\<close>

lemma check_token_denies:
  assumes "\<And>u e. getUser token = IdpResult u e \<Longrightarrow> truthy e \<or> \<not> truthy u"
  shows "\<exists>b. check_token getUser token = (Deny 401 b, [GetUser token])"
  using assms by (cases "getUser token") (auto simp: check_token_def)

lemma unvalidated_token_denied:
  assumes "\<And>token u e. identity w token = IdpResult u e \<Longrightarrow> truthy e \<or> \<not> truthy u"
  shows "\<exists>b cs. route_search_papers w authHeader body = (Json 401 b, cs) \<and> (\<forall>c\<in>set cs. \<exists>t. c = GetUser t)"
    and "\<exists>b cs. route_generate_report w table authHeader body = (Json 401 b, cs, table) \<and>
                (\<forall>c\<in>set cs. \<exists>t. c = GetUser t)"
    and "\<exists>b cs. route_suggest_prompt w authHeader body = (Json 401 b, cs) \<and> (\<forall>c\<in>set cs. \<exists>t. c = GetUser t)"
proof -
  have ck: "\<exists>b. check_token (identity w) token = (Deny 401 b, [GetUser token])" for token
    using assms by (intro check_token_denies) blast
  have tok: "\<exists>b cs. authenticateToken (identity w) authHeader = (Deny 401 b, cs) \<and>
                    (\<forall>c\<in>set cs. \<exists>t. c = GetUser t)"
  proof (cases authHeader)
    case None
    then show ?thesis by (simp add: authenticateToken_def)
  next
    case (Some h)
    show ?thesis
    proof (cases "take 7 h = ''Bearer ''")
      case True
      with Some ck [of "elem1 (split_on CHR '' '' h)"] show ?thesis
        by (auto simp: authenticateToken_def)
    next
      case False
      with Some show ?thesis by (simp add: authenticateToken_def)
    qed
  qed
  have usr: "\<exists>b cs. authenticateUser (identity w) authHeader = (Deny 401 b, cs) \<and>
                    (\<forall>c\<in>set cs. \<exists>t. c = GetUser t)"
  proof (cases authHeader)
    case None
    then show ?thesis by (simp add: authenticateUser_def)
  next
    case (Some h)
    show ?thesis
    proof (cases "h = []")
      case True
      with Some show ?thesis by (simp add: authenticateUser_def)
    next
      case False
      with Some ck [of "Some (replace_first ''Bearer '' [] h)"] show ?thesis
        by (auto simp: authenticateUser_def)
    qed
  qed
  from tok show "\<exists>b cs. route_search_papers w authHeader body = (Json 401 b, cs) \<and>
                       (\<forall>c\<in>set cs. \<exists>t. c = GetUser t)"
    by (auto simp: route_search_papers_def)
  from tok show "\<exists>b cs. route_generate_report w table authHeader body = (Json 401 b, cs, table) \<and>
                       (\<forall>c\<in>set cs. \<exists>t. c = GetUser t)"
    by (auto simp: route_generate_report_def)
  from usr show "\<exists>b cs. route_suggest_prompt w authHeader body = (Json 401 b, cs) \<and>
                       (\<forall>c\<in>set cs. \<exists>t. c = GetUser t)"
    by (auto simp: route_suggest_prompt_def)
qed

text \<open>
  C8. A protected route is to require an Authorization header of the form
  \<^verbatim>\<open>Bearer <token>\<close>. On \<^verbatim>\<open>/api/suggest-prompt\<close> the header \<^verbatim>\<open>tok123\<close>, which lacks
  the prefix, is admitted when the identity service knows the token, and the handler
  runs; \<^verbatim>\<open>authenticateToken\<close> answers the same header with status 401 on
  \<^verbatim>\<open>/api/search-papers\<close>.
\<close>

theorem raw_token_accepted:
  "take 7 ''tok123'' \<noteq> ''Bearer '' \<and>
   route_suggest_prompt demo_world (Some ''tok123'') (Some (JObject [(''initialQuery'', JString ''q'')])) =
     (Json 200 (JObject [(''refinedQuery'', JString ''evaluation of language models''),
                         (''researchTags'', JArray [])]),
      [GetUser (Some ''tok123''), Complete (suggest_request ''q''), Complete (tag_request ''q'')]) \<and>
   route_search_papers demo_world (Some ''tok123'') (Some (JObject [(''query'', JString ''q'')])) =
     (Json 401 (JObject [(''error'', JString ''No token provided'')]), [])"
  by (simp add: route_suggest_prompt_def route_search_papers_def authenticateUser_def
      authenticateToken_def check_token_def error_body_def
      suggest_prompt_def Let_def destructure_def suggest_content_def suggest_respond_def
      parse_suggestions_def getResearchTags_def tags_of_answer_def no_choices_def first_content_def
      demo_world_def demo_getUser_def demo_user_def demo_parse_def reply_text_def reply_object_def
      http_error_def replied_def completion_body_def)

end
